theory Spec2Isabelle
  imports Complex_Main
begin

section \<open>Numbers and constants\<close>

text \<open>
  The game's TypeScript \<^verbatim>\<open>number\<close>s are modelled as exact reals: the development is about
  the arithmetic the code writes down (sums, products, \<^verbatim>\<open>Math.min\<close>, \<^verbatim>\<open>Math.max\<close>), not about
  the rounding of IEEE doubles. The constants are those of \<^verbatim>\<open>GAMEPLAY\<close> in
  \<^verbatim>\<open>src/utils/Constants.ts\<close>.
\<close>

definition TIMER_UPDATE_INTERVAL :: real where
  "TIMER_UPDATE_INTERVAL = 100"

definition NOISE_INCREASE_RATE :: real where
  "NOISE_INCREASE_RATE = 15"

definition NOISE_DECREASE_RATE :: real where
  "NOISE_DECREASE_RATE = 8"

definition WAKE_METER_MAX :: real where
  "WAKE_METER_MAX = 100"

section \<open>Enumerations and events (src/types/GameTypes.ts)\<close>

datatype GameState = LOADING | MENU | PLAYING | PAUSED | VICTORY | GAME_OVER

datatype BearState = SLEEPING | DROWSY | AWAKE

datatype TVState = OFF | TURNING_ON | ON | TURNING_OFF

text \<open>\<^verbatim>\<open>PowerUpType\<close> of the level manager.\<close>

datatype PowerUpType =
  ESPRESSO_SHOT | NOISE_HEADPHONES | WHITE_NOISE_MACHINE | MEDITATION_STATE | SOUND_SHIELD
  | WINDOW_CONTROL

text \<open>
  The events the entities publish on the event bus, each with the payload fields the
  handlers read. \<^verbatim>\<open>EvMeterUpdate level percentage isIncreasing\<close>,
  \<^verbatim>\<open>EvBearStateChange oldState newState noiseLevel noisePercentage\<close>,
  \<^verbatim>\<open>EvBearWakeUp noiseLevel\<close>, \<^verbatim>\<open>EvTVTurnOn noiseLevel\<close>, \<^verbatim>\<open>EvTVNoiseStart noiseLevel\<close>,
  \<^verbatim>\<open>EvNoiseSourceStart sourceId intensity\<close>, \<^verbatim>\<open>EvNoiseSourceStop sourceId\<close>,
  \<^verbatim>\<open>EvPowerUpActivated type duration\<close>, \<^verbatim>\<open>EvPowerUpExpired type\<close>.
\<close>

datatype game_event =
  EvMeterUpdate real real bool
  | EvBearStateChange BearState BearState real real
  | EvBearWakeUp real
  | EvTVTurnOn real
  | EvTVTurnOff
  | EvTVNoiseStart real
  | EvNoiseSourceStart string real
  | EvNoiseSourceStop string
  | EvPowerUpActivated PowerUpType real
  | EvPowerUpExpired PowerUpType

section \<open>NoiseMeter (the wake meter)\<close>

text \<open>
  \<^verbatim>\<open>INoiseMeterState\<close>: the entity's \<^verbatim>\<open>active\<close> flag and the meter's own fields. Every
  method returns the new state together with the events it emitted, in order.
\<close>

record INoiseMeterState =
  meter_active :: bool
  currentLevel :: real
  maxLevel :: real
  decayRate :: real
  isActive :: bool

definition NoiseMeter_new :: INoiseMeterState where
  "NoiseMeter_new =
     \<lparr>meter_active = True, currentLevel = 0, maxLevel = WAKE_METER_MAX,
      decayRate = NOISE_DECREASE_RATE, isActive = False\<rparr>"

definition getPercentage :: "INoiseMeterState \<Rightarrow> real" where
  "getPercentage m = (currentLevel m / maxLevel m) * 100"

definition getCurrentLevel :: "INoiseMeterState \<Rightarrow> real" where
  "getCurrentLevel m = currentLevel m"

definition isAtMaximum :: "INoiseMeterState \<Rightarrow> bool" where
  "isAtMaximum m = (currentLevel m \<ge> maxLevel m)"

definition meter_addNoise :: "real \<Rightarrow> INoiseMeterState \<Rightarrow> INoiseMeterState \<times> game_event list" where
  "meter_addNoise amount m =
     (let oldLevel = currentLevel m;
          m' = m\<lparr>currentLevel := min (currentLevel m + amount) (maxLevel m)\<rparr>
      in (m', if currentLevel m' \<noteq> oldLevel
              then [EvMeterUpdate (currentLevel m') (getPercentage m') True] else []))"

definition meter_reduceNoise :: "real \<Rightarrow> INoiseMeterState \<Rightarrow> INoiseMeterState \<times> game_event list" where
  "meter_reduceNoise amount m =
     (let oldLevel = currentLevel m;
          m' = m\<lparr>currentLevel := max (currentLevel m - amount) 0\<rparr>
      in (m', if currentLevel m' \<noteq> oldLevel
              then [EvMeterUpdate (currentLevel m') (getPercentage m') False] else []))"

definition activateNoiseCanceling :: "INoiseMeterState \<Rightarrow> INoiseMeterState" where
  "activateNoiseCanceling m = m\<lparr>isActive := True\<rparr>"

definition deactivateNoiseCanceling :: "INoiseMeterState \<Rightarrow> INoiseMeterState" where
  "deactivateNoiseCanceling m = m\<lparr>isActive := False\<rparr>"

text \<open>A trace of calls on one meter, as the round makes them.\<close>

datatype meter_call = AddNoise real | ReduceNoise real

fun call_amount :: "meter_call \<Rightarrow> real" where
  "call_amount (AddNoise a) = a"
| "call_amount (ReduceNoise a) = a"

fun run_call :: "meter_call \<Rightarrow> INoiseMeterState \<Rightarrow> INoiseMeterState" where
  "run_call (AddNoise a) m = fst (meter_addNoise a m)"
| "run_call (ReduceNoise a) m = fst (meter_reduceNoise a m)"

fun run_calls :: "meter_call list \<Rightarrow> INoiseMeterState \<Rightarrow> INoiseMeterState" where
  "run_calls [] m = m"
| "run_calls (c # cs) m = run_calls cs (run_call c m)"

section \<open>Bear (the character state machine)\<close>

record IBearState =
  bear_active :: bool
  currentState :: BearState
  wakeThreshold :: real
  currentNoise :: real

definition Bear_new :: IBearState where
  "Bear_new =
     \<lparr>bear_active = True, currentState = SLEEPING, wakeThreshold = WAKE_METER_MAX,
      currentNoise = 0\<rparr>"

definition getNoisePercentage :: "IBearState \<Rightarrow> real" where
  "getNoisePercentage b = (currentNoise b / wakeThreshold b) * 100"

text \<open>
  \<^verbatim>\<open>updateStateBasedOnNoise\<close>: the tier is recomputed from the percentage; only when it
  differs from the stored one is the state written and the state-change event emitted,
  followed by the wake-up event when the new tier is \<^verbatim>\<open>AWAKE\<close>.
\<close>

definition updateStateBasedOnNoise :: "IBearState \<Rightarrow> IBearState \<times> game_event list" where
  "updateStateBasedOnNoise b =
     (let noisePercentage = getNoisePercentage b;
          newState = (if noisePercentage \<ge> 100 then AWAKE
                      else if noisePercentage \<ge> 50 then DROWSY
                      else SLEEPING)
      in if newState \<noteq> currentState b
         then (let oldState = currentState b;
                   b' = b\<lparr>currentState := newState\<rparr>
               in (b', EvBearStateChange oldState newState (currentNoise b') noisePercentage
                       # (if newState = AWAKE then [EvBearWakeUp (currentNoise b')] else [])))
         else (b, []))"

definition Bear_update :: "IBearState \<Rightarrow> IBearState \<times> game_event list" where
  "Bear_update b = (if \<not> bear_active b then (b, []) else updateStateBasedOnNoise b)"

definition bear_addNoise :: "real \<Rightarrow> IBearState \<Rightarrow> IBearState \<times> game_event list" where
  "bear_addNoise amount b =
     updateStateBasedOnNoise (b\<lparr>currentNoise := min (currentNoise b + amount) (wakeThreshold b)\<rparr>)"

definition bear_reduceNoise :: "real \<Rightarrow> IBearState \<Rightarrow> IBearState \<times> game_event list" where
  "bear_reduceNoise amount b =
     updateStateBasedOnNoise (b\<lparr>currentNoise := max (currentNoise b - amount) 0\<rparr>)"






section \<open>Television (the periodic noise emitter)\<close>

text \<open>
  \<^verbatim>\<open>Math.random()\<close> is an input of the model: a function that needs a draw takes it as
  an argument \<open>r\<close>, a real in \<open>[0, 1)\<close>. \<^verbatim>\<open>Phaser.Math.Between(min, max)\<close> is
  \<^verbatim>\<open>Math.floor(Math.random() * (max - min + 1) + min)\<close>.
\<close>

definition Between :: "real \<Rightarrow> real \<Rightarrow> real \<Rightarrow> real" where
  "Between lo hi r = of_int \<lfloor>r * (hi - lo + 1) + lo\<rfloor>"

record ITVState =
  tv_active :: bool
  tv_currentState :: TVState
  isOn :: bool
  noiseLevel :: real
  turnOnDelay :: real
  activeDuration :: real

record TVConfig =
  initialDelayMin :: real
  initialDelayMax :: real
  subsequentDelayMin :: real
  subsequentDelayMax :: real
  activeDurationMin :: real
  activeDurationMax :: real

text \<open>The field initialiser of \<^verbatim>\<open>tvConfig\<close>: the \<^verbatim>\<open>GAMEPLAY.TV_*\<close> constants.\<close>

definition default_tvConfig :: TVConfig where
  "default_tvConfig =
     \<lparr>initialDelayMin = 8000, initialDelayMax = 15000,
      subsequentDelayMin = 10000, subsequentDelayMax = 20000,
      activeDurationMin = 10000, activeDurationMax = 18000\<rparr>"

text \<open>
  The two transition animations of the sprite are Phaser tweens whose \<^verbatim>\<open>onComplete\<close>
  callbacks finish the transition. A started tween is kept in \<open>tweens\<close> until it
  completes; the delayed calls that fire \<^verbatim>\<open>turnOn\<close> and \<^verbatim>\<open>turnOff\<close> are calls the
  environment may make at any time (both methods guard themselves).
\<close>

datatype tv_tween = TurnOnTween | TurnOffTween

record Television =
  tvState :: ITVState
  tvConfig :: TVConfig
  tweens :: "tv_tween list"

definition tv_scheduleNextActivation :: "real \<Rightarrow> Television \<Rightarrow> Television" where
  "tv_scheduleNextActivation r tv =
     (let minDelay = (if turnOnDelay (tvState tv) = 0 then initialDelayMin (tvConfig tv)
                      else subsequentDelayMin (tvConfig tv));
          maxDelay = (if turnOnDelay (tvState tv) = 0 then initialDelayMax (tvConfig tv)
                      else subsequentDelayMax (tvConfig tv));
          delay = Between minDelay maxDelay r
      in tv\<lparr>tvState := (tvState tv)\<lparr>turnOnDelay := delay\<rparr>\<rparr>)"

definition scheduleDeactivation :: "real \<Rightarrow> Television \<Rightarrow> Television" where
  "scheduleDeactivation r tv =
     (let duration = Between (activeDurationMin (tvConfig tv)) (activeDurationMax (tvConfig tv)) r
      in tv\<lparr>tvState := (tvState tv)\<lparr>activeDuration := duration\<rparr>\<rparr>)"

definition Television_new :: "real \<Rightarrow> Television" where
  "Television_new r =
     tv_scheduleNextActivation r
       \<lparr>tvState = \<lparr>tv_active = True, tv_currentState = OFF, isOn = False, noiseLevel = 0,
                   turnOnDelay = 0, activeDuration = 0\<rparr>,
        tvConfig = default_tvConfig, tweens = []\<rparr>"

text \<open>\<^verbatim>\<open>configure\<close>: \<^verbatim>\<open>config.x || GAMEPLAY.X\<close> takes the default for a falsy (zero) value.\<close>

definition configure :: "TVConfig \<Rightarrow> Television \<Rightarrow> Television" where
  "configure c tv =
     tv\<lparr>tvConfig :=
        \<lparr>initialDelayMin = (if initialDelayMin c \<noteq> 0 then initialDelayMin c else 8000),
         initialDelayMax = (if initialDelayMax c \<noteq> 0 then initialDelayMax c else 15000),
         subsequentDelayMin = (if subsequentDelayMin c \<noteq> 0 then subsequentDelayMin c else 10000),
         subsequentDelayMax = (if subsequentDelayMax c \<noteq> 0 then subsequentDelayMax c else 20000),
         activeDurationMin = (if activeDurationMin c \<noteq> 0 then activeDurationMin c else 10000),
         activeDurationMax = (if activeDurationMax c \<noteq> 0 then activeDurationMax c else 18000)\<rparr>\<rparr>"

definition turnOn :: "Television \<Rightarrow> Television" where
  "turnOn tv =
     (if tv_currentState (tvState tv) \<noteq> OFF then tv
      else tv\<lparr>tvState := (tvState tv)\<lparr>tv_currentState := TURNING_ON\<rparr>,
              tweens := tweens tv @ [TurnOnTween]\<rparr>)"

definition turnOff :: "Television \<Rightarrow> Television" where
  "turnOff tv =
     (if tv_currentState (tvState tv) \<noteq> ON then tv
      else tv\<lparr>tvState := (tvState tv)\<lparr>tv_currentState := TURNING_OFF\<rparr>,
              tweens := tweens tv @ [TurnOffTween]\<rparr>)"

text \<open>The \<^verbatim>\<open>onComplete\<close> callbacks of the two tweens.\<close>

definition turnOn_onComplete :: "real \<Rightarrow> Television \<Rightarrow> Television \<times> game_event list" where
  "turnOn_onComplete r tv =
     (let tv1 = tv\<lparr>tvState := (tvState tv)\<lparr>tv_currentState := ON, isOn := True,
                                             noiseLevel := NOISE_INCREASE_RATE\<rparr>\<rparr>
      in (scheduleDeactivation r tv1, [EvTVTurnOn (noiseLevel (tvState tv1))]))"

definition turnOff_onComplete :: "real \<Rightarrow> Television \<Rightarrow> Television \<times> game_event list" where
  "turnOff_onComplete r tv =
     (let tv1 = tv\<lparr>tvState := (tvState tv)\<lparr>tv_currentState := OFF, isOn := False,
                                             noiseLevel := 0\<rparr>\<rparr>
      in (tv_scheduleNextActivation r tv1, [EvTVTurnOff]))"

text \<open>The oldest running tween completes (nothing happens when none is running).\<close>

definition tween_complete :: "real \<Rightarrow> Television \<Rightarrow> Television \<times> game_event list" where
  "tween_complete r tv =
     (case tweens tv of
        [] \<Rightarrow> (tv, [])
      | TurnOnTween # rest \<Rightarrow> turnOn_onComplete r (tv\<lparr>tweens := rest\<rparr>)
      | TurnOffTween # rest \<Rightarrow> turnOff_onComplete r (tv\<lparr>tweens := rest\<rparr>))"

definition tv_update :: "Television \<Rightarrow> Television \<times> game_event list" where
  "tv_update tv =
     (if \<not> tv_active (tvState tv) then (tv, [])
      else if isOn (tvState tv) \<and> tv_currentState (tvState tv) = ON
           then (tv, [EvTVNoiseStart (noiseLevel (tvState tv))])
           else (tv, []))"

definition getNoiseLevel :: "Television \<Rightarrow> real" where
  "getNoiseLevel tv = noiseLevel (tvState tv)"

definition tv_isOn :: "Television \<Rightarrow> bool" where
  "tv_isOn tv = isOn (tvState tv)"

text \<open>The calls that reach one television during a round, and the states they lead to.\<close>

datatype tv_call = CallTurnOn | CallTurnOff | TweenComplete real | CallUpdate | CallConfigure TVConfig

fun run_tv_call :: "tv_call \<Rightarrow> Television \<Rightarrow> Television" where
  "run_tv_call CallTurnOn tv = turnOn tv"
| "run_tv_call CallTurnOff tv = turnOff tv"
| "run_tv_call (TweenComplete r) tv = fst (tween_complete r tv)"
| "run_tv_call CallUpdate tv = fst (tv_update tv)"
| "run_tv_call (CallConfigure c) tv = configure c tv"

fun run_tv_calls :: "tv_call list \<Rightarrow> Television \<Rightarrow> Television" where
  "run_tv_calls [] tv = tv"
| "run_tv_calls (c # cs) tv = run_tv_calls cs (run_tv_call c tv)"

text \<open>
  What each phase of the television looks like: the intensity, the \<^verbatim>\<open>isOn\<close> flag and the
  running tween.
\<close>

definition tv_inv :: "Television \<Rightarrow> bool" where
  "tv_inv tv =
     (case tv_currentState (tvState tv) of
        OFF \<Rightarrow> noiseLevel (tvState tv) = 0 \<and> \<not> isOn (tvState tv) \<and> tweens tv = []
      | TURNING_ON \<Rightarrow> noiseLevel (tvState tv) = 0 \<and> \<not> isOn (tvState tv) \<and> tweens tv = [TurnOnTween]
      | ON \<Rightarrow> noiseLevel (tvState tv) = NOISE_INCREASE_RATE \<and> isOn (tvState tv) \<and> tweens tv = []
      | TURNING_OFF \<Rightarrow> noiseLevel (tvState tv) = NOISE_INCREASE_RATE \<and> isOn (tvState tv)
                       \<and> tweens tv = [TurnOffTween])"

section \<open>NoiseSource and NoiseSourceManager (ambient noise)\<close>

datatype NoiseType = Neighbors | Construction | Traffic | Weather | Wildlife

datatype NoisePattern = Random | Scheduled | Reactive | Continuous

text \<open>
  \<^verbatim>\<open>NoiseSourceConfig\<close> without its display name and screen position. \<open>frequency\<close> is
  in events per minute and \<open>duration\<close> in milliseconds.
\<close>

record NoiseSourceConfig =
  ns_id :: string
  ns_type :: NoiseType
  intensity :: real
  pattern :: NoisePattern
  frequency :: real
  duration :: real
  startDelay :: "real option"

record NoiseSource =
  ns_active :: bool
  config :: NoiseSourceConfig
  ns_isActive :: bool
  nextActivationTime :: real
  currentEventEndTime :: real

text \<open>
  The draws of \<^verbatim>\<open>Math.random()\<close> made while the sources are updated come from a
  sequence \<open>rnd\<close>; a counter says which draw is next. \<open>now\<close> is \<^verbatim>\<open>scene.time.now\<close>.
  The delay of the patterns \<^verbatim>\<open>random\<close> and \<^verbatim>\<open>scheduled\<close> divides by the frequency, which
  is positive in every level configuration.
\<close>

definition ns_scheduleNextActivation ::
    "real \<Rightarrow> (nat \<Rightarrow> real) \<Rightarrow> nat \<Rightarrow> NoiseSource \<Rightarrow> NoiseSource \<times> nat" where
  "ns_scheduleNextActivation now rnd k src =
     (case pattern (config src) of
        Random \<Rightarrow>
          (src\<lparr>nextActivationTime := now + (60000 / frequency (config src)) * (0.5 + rnd k)\<rparr>, Suc k)
      | Scheduled \<Rightarrow>
          (src\<lparr>nextActivationTime := now + 60000 / frequency (config src)\<rparr>, k)
      | Reactive \<Rightarrow>
          (src\<lparr>nextActivationTime := now + 30000\<rparr>, k)
      | Continuous \<Rightarrow>
          (src\<lparr>nextActivationTime := now + (2000 + rnd k * 3000)\<rparr>, Suc k))"

definition NoiseSource_new ::
    "real \<Rightarrow> (nat \<Rightarrow> real) \<Rightarrow> nat \<Rightarrow> NoiseSourceConfig \<Rightarrow> NoiseSource \<times> nat" where
  "NoiseSource_new now rnd k c =
     ns_scheduleNextActivation now rnd k
       \<lparr>ns_active = True, config = c, ns_isActive = False, nextActivationTime = 0,
        currentEventEndTime = 0\<rparr>"

definition activate ::
    "real \<Rightarrow> (nat \<Rightarrow> real) \<Rightarrow> nat \<Rightarrow> NoiseSource \<Rightarrow> NoiseSource \<times> game_event list \<times> nat" where
  "activate now rnd k src =
     (let src1 = src\<lparr>ns_isActive := True\<rparr>;
          duration' = duration (config src1) + (rnd k * 2000 - 1000);
          src2 = src1\<lparr>currentEventEndTime := now + duration'\<rparr>;
          ev = EvNoiseSourceStart (ns_id (config src2)) (intensity (config src2));
          (src3, k') = ns_scheduleNextActivation now rnd (Suc k) src2
      in (src3, [ev], k'))"

definition deactivate :: "NoiseSource \<Rightarrow> NoiseSource \<times> game_event list" where
  "deactivate src = (src\<lparr>ns_isActive := False\<rparr>, [EvNoiseSourceStop (ns_id (config src))])"

definition ns_update ::
    "real \<Rightarrow> real \<Rightarrow> (nat \<Rightarrow> real) \<Rightarrow> nat \<Rightarrow> NoiseSource \<Rightarrow> NoiseSource \<times> game_event list \<times> nat" where
  "ns_update time now rnd k src =
     (if \<not> ns_active src then (src, [], k)
      else
        (let (src1, evs1, k1) =
               (if time \<ge> nextActivationTime src \<and> \<not> ns_isActive src
                then activate now rnd k src else (src, [], k));
             (src2, evs2) =
               (if ns_isActive src1 \<and> time \<ge> currentEventEndTime src1
                then deactivate src1 else (src1, []))
         in (src2, evs1 @ evs2, k1)))"

definition forceActivate :: "real \<Rightarrow> NoiseSource \<Rightarrow> NoiseSource" where
  "forceActivate now src = (if \<not> ns_isActive src then src\<lparr>nextActivationTime := now\<rparr> else src)"

definition getIntensity :: "NoiseSource \<Rightarrow> real" where
  "getIntensity src = (if ns_isActive src then intensity (config src) else 0)"

text \<open>
  The manager's \<^verbatim>\<open>Map\<close> of sources, in insertion order. \<^verbatim>\<open>update\<close> visits every
  source; \<^verbatim>\<open>getTotalNoiseLevel\<close> sums the intensities of the active ones.
\<close>

fun nsm_update ::
    "real \<Rightarrow> real \<Rightarrow> (nat \<Rightarrow> real) \<Rightarrow> nat \<Rightarrow> NoiseSource list \<Rightarrow> NoiseSource list \<times> game_event list \<times> nat" where
  "nsm_update time now rnd k [] = ([], [], k)"
| "nsm_update time now rnd k (src # srcs) =
     (let (src', evs, k1) = ns_update time now rnd k src;
          (srcs', evs', k2) = nsm_update time now rnd k1 srcs
      in (src' # srcs', evs @ evs', k2))"

fun getTotalNoiseLevel :: "NoiseSource list \<Rightarrow> real" where
  "getTotalNoiseLevel [] = 0"
| "getTotalNoiseLevel (src # srcs) = getIntensity src + getTotalNoiseLevel srcs"

text \<open>
  \<^verbatim>\<open>createNoiseSource\<close>: \<^verbatim>\<open>Map.set\<close> replaces the source stored under the same id, keeping
  its place, and appends a new id.
\<close>

fun set_source :: "NoiseSource \<Rightarrow> NoiseSource list \<Rightarrow> NoiseSource list" where
  "set_source n [] = [n]"
| "set_source n (src # srcs) =
     (if ns_id (config src) = ns_id (config n) then n # srcs else src # set_source n srcs)"

definition createNoiseSource ::
    "real \<Rightarrow> (nat \<Rightarrow> real) \<Rightarrow> nat \<Rightarrow> NoiseSourceConfig \<Rightarrow> NoiseSource list
       \<Rightarrow> NoiseSource list \<times> nat" where
  "createNoiseSource now rnd k c srcs =
     (let (src, k') = NoiseSource_new now rnd k c in (set_source src srcs, k'))"

text \<open>
  \<^verbatim>\<open>createNoiseSources\<close> creates at once the sources that have no start delay; the others are
  created later by a delayed call.
\<close>

fun createNoiseSources ::
    "real \<Rightarrow> (nat \<Rightarrow> real) \<Rightarrow> nat \<Rightarrow> NoiseSourceConfig list \<Rightarrow> NoiseSource list
       \<Rightarrow> NoiseSource list \<times> nat" where
  "createNoiseSources now rnd k [] srcs = (srcs, k)"
| "createNoiseSources now rnd k (c # cs) srcs =
     (if (case startDelay c of None \<Rightarrow> False | Some d \<Rightarrow> d \<noteq> 0)
      then createNoiseSources now rnd k cs srcs
      else (let (srcs', k') = createNoiseSource now rnd k c srcs
            in createNoiseSources now rnd k' cs srcs'))"

text \<open>A source of level 6 (\<^verbatim>\<open>Rush Hour Madness\<close>) in the level manager's table.\<close>

definition traffic_horns :: NoiseSourceConfig where
  "traffic_horns =
     \<lparr>ns_id = ''traffic_horns'', ns_type = Traffic, intensity = 4, pattern = Random,
      frequency = 3, duration = 2000, startDelay = None\<rparr>"

section \<open>PowerUpManager (time-boxed modifiers)\<close>

text \<open>
  \<^verbatim>\<open>PowerUpEffect\<close>: every field is optional. \<^verbatim>\<open>PowerUpConfig\<close> is kept without its icon and
  colour. A lookup of a type that has no configuration throws; that is the error value.
\<close>

record PowerUpEffect =
  noiseReduction :: "real option"
  noiseCancellationBoost :: "real option"
  temporaryImmunity :: "bool option"
  noiseSlowdown :: "real option"
  shieldRadius :: "real option"

record PowerUpConfig =
  pu_type :: PowerUpType
  pu_name :: string
  description :: string
  pu_duration :: real
  cooldown :: real
  effect :: PowerUpEffect

datatype error = ConfigNotFound PowerUpType

definition no_effect :: PowerUpEffect where
  "no_effect =
     \<lparr>noiseReduction = None, noiseCancellationBoost = None, temporaryImmunity = None,
      noiseSlowdown = None, shieldRadius = None\<rparr>"

text \<open>The static table filled by \<^verbatim>\<open>initializePowerUpConfigs\<close>.\<close>

definition powerUpConfigs :: "(PowerUpType \<times> PowerUpConfig) list" where
  "powerUpConfigs =
     [(ESPRESSO_SHOT,
         \<lparr>pu_type = ESPRESSO_SHOT, pu_name = ''Espresso Shot'',
          description = ''Slows down wake meter buildup for 15 seconds'',
          pu_duration = 15000,
          cooldown = 30000, effect = no_effect\<lparr>noiseSlowdown := Some 0.5\<rparr>\<rparr>),
      (NOISE_HEADPHONES,
         \<lparr>pu_type = NOISE_HEADPHONES, pu_name = ''Noise-Canceling Headphones'',
          description = ''Reduces all noise by 75% for 20 seconds'',
          pu_duration = 20000,
          cooldown = 45000, effect = no_effect\<lparr>noiseReduction := Some 0.25\<rparr>\<rparr>),
      (WHITE_NOISE_MACHINE,
         \<lparr>pu_type = WHITE_NOISE_MACHINE, pu_name = ''White Noise Machine'',
          description = ''Masks other sounds for 12 seconds'',
          pu_duration = 12000,
          cooldown = 25000, effect = no_effect\<lparr>noiseReduction := Some 0.4\<rparr>\<rparr>),
      (MEDITATION_STATE,
         \<lparr>pu_type = MEDITATION_STATE, pu_name = ''Meditation State'',
          description = ''Boosts noise cancellation effectiveness by 100%'',
          pu_duration = 10000,
          cooldown = 35000, effect = no_effect\<lparr>noiseCancellationBoost := Some 2\<rparr>\<rparr>),
      (SOUND_SHIELD,
         \<lparr>pu_type = SOUND_SHIELD, pu_name = ''Sound Shield'',
          description = ''Complete immunity to noise for 8 seconds'',
          pu_duration = 8000,
          cooldown = 60000, effect = no_effect\<lparr>temporaryImmunity := Some True\<rparr>\<rparr>),
      (WINDOW_CONTROL,
         \<lparr>pu_type = WINDOW_CONTROL, pu_name = ''Window Control'',
          description = ''Reduces outside noise sources by 60%'',
          pu_duration = 25000,
          cooldown = 40000, effect = no_effect\<lparr>noiseReduction := Some 0.4\<rparr>\<rparr>)]"

definition getPowerUpConfig :: "PowerUpType \<Rightarrow> error + PowerUpConfig" where
  "getPowerUpConfig t =
     (case map_of powerUpConfigs t of None \<Rightarrow> Inl (ConfigNotFound t) | Some c \<Rightarrow> Inr c)"

record ActivePowerUp =
  ap_type :: PowerUpType
  ap_config :: PowerUpConfig
  remainingDuration :: real
  ap_isActive :: bool

definition ActivePowerUp_new :: "PowerUpType \<Rightarrow> PowerUpConfig \<Rightarrow> ActivePowerUp" where
  "ActivePowerUp_new t c =
     \<lparr>ap_type = t, ap_config = c, remainingDuration = pu_duration c, ap_isActive = True\<rparr>"

definition expire :: "ActivePowerUp \<Rightarrow> ActivePowerUp \<times> game_event list" where
  "expire p = (p\<lparr>ap_isActive := False\<rparr>, [EvPowerUpExpired (ap_type p)])"

definition ap_update :: "real \<Rightarrow> ActivePowerUp \<Rightarrow> ActivePowerUp \<times> game_event list" where
  "ap_update delta p =
     (if \<not> ap_isActive p then (p, [])
      else (let p' = p\<lparr>remainingDuration := remainingDuration p - delta\<rparr>
            in if remainingDuration p' \<le> 0 then expire p' else (p', [])))"

definition getRemainingDuration :: "ActivePowerUp \<Rightarrow> real" where
  "getRemainingDuration p = max 0 (remainingDuration p)"

text \<open>
  The manager: the \<^verbatim>\<open>Set\<close> of available types (a list without duplicates, each type at
  its first occurrence) and the two \<^verbatim>\<open>Map\<close>s, each in insertion order with at most one entry
  per key. The spawned pick-up sprites are not modelled.
\<close>

record PowerUpManager =
  availablePowerUps :: "PowerUpType list"
  activePowerUps :: "(PowerUpType \<times> ActivePowerUp) list"
  powerUpCooldowns :: "(PowerUpType \<times> real) list"

definition PowerUpManager_new :: PowerUpManager where
  "PowerUpManager_new = \<lparr>availablePowerUps = [], activePowerUps = [], powerUpCooldowns = []\<rparr>"

definition setAvailablePowerUps :: "PowerUpType list \<Rightarrow> PowerUpManager \<Rightarrow> PowerUpManager" where
  "setAvailablePowerUps ts m = m\<lparr>availablePowerUps := rev (remdups (rev ts))\<rparr>"

definition isActivePowerUp :: "PowerUpType \<Rightarrow> PowerUpManager \<Rightarrow> bool" where
  "isActivePowerUp t m = (map_of (activePowerUps m) t \<noteq> None)"

text \<open>\<^verbatim>\<open>Map.set\<close>: the value of a present key is replaced in place, a new key is appended.\<close>

fun map_set :: "'k \<Rightarrow> 'v \<Rightarrow> ('k \<times> 'v) list \<Rightarrow> ('k \<times> 'v) list" where
  "map_set k v [] = [(k, v)]"
| "map_set k v ((k', v') # kvs) = (if k' = k then (k, v) # kvs else (k', v') # map_set k v kvs)"

text \<open>
  \<^verbatim>\<open>spawnRandomPowerUp\<close> with the draw \<open>r\<close> that selects the type: the types whose cooldown
  has elapsed are the candidates, and the selected one enters its cooldown.
\<close>

definition spawnRandomPowerUp :: "real \<Rightarrow> PowerUpManager \<Rightarrow> PowerUpManager" where
  "spawnRandomPowerUp r m =
     (if length (availablePowerUps m) = 0 then m
      else (let availableTypes =
                  filter (\<lambda>t. case map_of (powerUpCooldowns m) t of None \<Rightarrow> True | Some c \<Rightarrow> c \<le> 0)
                    (availablePowerUps m)
            in if length availableTypes = 0 then m
               else (let i = nat \<lfloor>r * real (length availableTypes)\<rfloor>
                     in if i < length availableTypes
                        then (case getPowerUpConfig (availableTypes ! i) of
                                Inl e \<Rightarrow> m
                              | Inr c \<Rightarrow>
                                  m\<lparr>powerUpCooldowns :=
                                      map_set (availableTypes ! i) (cooldown c) (powerUpCooldowns m)\<rparr>)
                        else m)))"

text \<open>
  \<^verbatim>\<open>activatePowerUp\<close> (the type is not a key of the map when the entry is set, so it is
  appended) returns the method's boolean, the manager and the emitted events, or
  the error of the configuration lookup.
\<close>

definition activatePowerUp ::
    "PowerUpType \<Rightarrow> PowerUpManager \<Rightarrow> error + (bool \<times> PowerUpManager \<times> game_event list)" where
  "activatePowerUp t m =
     (if isActivePowerUp t m then Inr (False, m, [])
      else (case getPowerUpConfig t of
              Inl e \<Rightarrow> Inl e
            | Inr c \<Rightarrow>
                Inr (True,
                     m\<lparr>activePowerUps := activePowerUps m @ [(t, ActivePowerUp_new t c)]\<rparr>,
                     [EvPowerUpActivated t (pu_duration c)])))"

text \<open>
  \<^verbatim>\<open>update\<close>: every active power-up is ticked and deleted once it is no longer active; every
  cooldown is decreased and deleted once it is used up.
\<close>

fun update_active ::
    "real \<Rightarrow> (PowerUpType \<times> ActivePowerUp) list \<Rightarrow> (PowerUpType \<times> ActivePowerUp) list \<times> game_event list" where
  "update_active delta [] = ([], [])"
| "update_active delta ((t, p) # ps) =
     (let (p', evs) = ap_update delta p;
          (ps', evs') = update_active delta ps
      in (if \<not> ap_isActive p' then ps' else (t, p') # ps', evs @ evs'))"

fun update_cooldowns :: "real \<Rightarrow> (PowerUpType \<times> real) list \<Rightarrow> (PowerUpType \<times> real) list" where
  "update_cooldowns delta [] = []"
| "update_cooldowns delta ((t, c) # cs) =
     (let newCooldown = c - delta
      in if newCooldown \<le> 0 then update_cooldowns delta cs
         else (t, newCooldown) # update_cooldowns delta cs)"

definition pum_update :: "real \<Rightarrow> PowerUpManager \<Rightarrow> PowerUpManager \<times> game_event list" where
  "pum_update delta m =
     (let (act, evs) = update_active delta (activePowerUps m)
      in (m\<lparr>activePowerUps := act,
             powerUpCooldowns := update_cooldowns delta (powerUpCooldowns m)\<rparr>, evs))"

text \<open>
  The aggregate queries. A JavaScript condition on an optional number holds when the number
  is present and not zero.
\<close>

fun getNoiseReductionMultiplier_from :: "real \<Rightarrow> (PowerUpType \<times> ActivePowerUp) list \<Rightarrow> real" where
  "getNoiseReductionMultiplier_from multiplier [] = multiplier"
| "getNoiseReductionMultiplier_from multiplier ((t, p) # ps) =
     getNoiseReductionMultiplier_from
       (case noiseReduction (effect (ap_config p)) of
          Some v \<Rightarrow> if v \<noteq> 0 then multiplier * v else multiplier
        | None \<Rightarrow> multiplier) ps"

definition getNoiseReductionMultiplier :: "PowerUpManager \<Rightarrow> real" where
  "getNoiseReductionMultiplier m = getNoiseReductionMultiplier_from 1 (activePowerUps m)"

fun getNoiseCancellationMultiplier_from :: "real \<Rightarrow> (PowerUpType \<times> ActivePowerUp) list \<Rightarrow> real" where
  "getNoiseCancellationMultiplier_from multiplier [] = multiplier"
| "getNoiseCancellationMultiplier_from multiplier ((t, p) # ps) =
     getNoiseCancellationMultiplier_from
       (case noiseCancellationBoost (effect (ap_config p)) of
          Some v \<Rightarrow> if v \<noteq> 0 then multiplier * v else multiplier
        | None \<Rightarrow> multiplier) ps"

definition getNoiseCancellationMultiplier :: "PowerUpManager \<Rightarrow> real" where
  "getNoiseCancellationMultiplier m = getNoiseCancellationMultiplier_from 1 (activePowerUps m)"

definition hasTemporaryImmunity :: "PowerUpManager \<Rightarrow> bool" where
  "hasTemporaryImmunity m =
     list_ex (\<lambda>(t, p). temporaryImmunity (effect (ap_config p)) = Some True) (activePowerUps m)"

text \<open>A manager on which the sound shield was activated 5000 ms ago.\<close>

definition shielded :: PowerUpManager where
  "shielded =
     fst (pum_update 5000
            (case activatePowerUp SOUND_SHIELD PowerUpManager_new of
               Inl e \<Rightarrow> PowerUpManager_new
             | Inr (ok, m, evs) \<Rightarrow> m))"

section \<open>GameScene (the round controller)\<close>

record LevelModifiers =
  noiseIncreaseMultiplier :: real
  noiseDecreaseMultiplier :: real
  bearSensitivity :: real

text \<open>\<^verbatim>\<open>LevelConfig\<close> without its texts, difficulty tag and win-condition flags.\<close>

record LevelConfig =
  level_id :: nat
  level_duration :: real
  level_tvConfig :: TVConfig
  noiseSources :: "NoiseSourceConfig list"
  level_availablePowerUps :: "PowerUpType list"
  modifiers :: LevelModifiers

record IInputState =
  isNoiseCancelActive :: bool
  mouseDown :: bool
  spaceDown :: bool
  touchActive :: bool

record LevelStats =
  timeRemaining :: real
  maxNoiseLevel :: real
  noiseCancelUsage :: real
  powerUpsUsed :: nat
  perfectSleep :: bool
  stealthMode :: bool

text \<open>
  The scene's fields that the simulation reads or writes. Texts, buttons, tweens of the
  user interface, the end-of-round modal and the persistence of progress are left out.
\<close>

record GameScene =
  bear :: IBearState
  television :: Television
  noiseMeter :: INoiseMeterState
  noiseSourceManager :: "NoiseSource list"
  powerUpManager :: PowerUpManager
  scene_currentLevel :: LevelConfig
  gameState :: GameState
  gameTimer :: real
  inputState :: IInputState
  gameStats :: LevelStats
  noiseCancelStartTime :: real
  currentScore :: real

subsection \<open>Terminal outcomes and the handlers of bear and meter events\<close>

definition victory :: "GameScene \<Rightarrow> GameScene" where
  "victory s = s\<lparr>gameState := VICTORY, gameStats := (gameStats s)\<lparr>timeRemaining := gameTimer s\<rparr>\<rparr>"

definition gameOver :: "GameScene \<Rightarrow> GameScene" where
  "gameOver s = s\<lparr>gameState := GAME_OVER, gameStats := (gameStats s)\<lparr>timeRemaining := gameTimer s\<rparr>\<rparr>"

definition onBearWakeUp :: "GameScene \<Rightarrow> GameScene" where
  "onBearWakeUp s = gameOver s"

definition onMeterUpdate :: "real \<Rightarrow> GameScene \<Rightarrow> GameScene" where
  "onMeterUpdate percentage s = (if percentage \<ge> 100 then gameOver s else s)"

definition onBearStateChange :: "BearState \<Rightarrow> GameScene \<Rightarrow> GameScene" where
  "onBearStateChange newState s =
     (if newState \<noteq> SLEEPING then s\<lparr>gameStats := (gameStats s)\<lparr>perfectSleep := False\<rparr>\<rparr> else s)"

definition checkVictoryCondition :: "GameScene \<Rightarrow> GameScene" where
  "checkVictoryCondition s =
     (if getCurrentLevel (noiseMeter s) < WAKE_METER_MAX then victory s else gameOver s)"

text \<open>
  The event bus calls the subscribers synchronously, inside the emitting method. The
  subscribers of bear and meter events write only the game state and the statistics, so
  running them right after the emitting method returns gives the same scene.
\<close>

fun on_entity_event :: "game_event \<Rightarrow> GameScene \<Rightarrow> GameScene" where
  "on_entity_event (EvBearStateChange oldState newState noise pct) s = onBearStateChange newState s"
| "on_entity_event (EvBearWakeUp noise) s = onBearWakeUp s"
| "on_entity_event (EvMeterUpdate level pct inc) s = onMeterUpdate pct s"
| "on_entity_event e s = s"

fun deliver :: "game_event list \<Rightarrow> GameScene \<Rightarrow> GameScene" where
  "deliver [] s = s"
| "deliver (e # es) s = deliver es (on_entity_event e s)"

definition scene_bear_addNoise :: "real \<Rightarrow> GameScene \<Rightarrow> GameScene" where
  "scene_bear_addNoise amount s =
     (let (b, evs) = bear_addNoise amount (bear s) in deliver evs (s\<lparr>bear := b\<rparr>))"

definition scene_bear_reduceNoise :: "real \<Rightarrow> GameScene \<Rightarrow> GameScene" where
  "scene_bear_reduceNoise amount s =
     (let (b, evs) = bear_reduceNoise amount (bear s) in deliver evs (s\<lparr>bear := b\<rparr>))"

definition scene_bear_update :: "GameScene \<Rightarrow> GameScene" where
  "scene_bear_update s =
     (let (b, evs) = Bear_update (bear s) in deliver evs (s\<lparr>bear := b\<rparr>))"

definition scene_meter_addNoise :: "real \<Rightarrow> GameScene \<Rightarrow> GameScene" where
  "scene_meter_addNoise amount s =
     (let (m, evs) = meter_addNoise amount (noiseMeter s) in deliver evs (s\<lparr>noiseMeter := m\<rparr>))"

definition scene_meter_reduceNoise :: "real \<Rightarrow> GameScene \<Rightarrow> GameScene" where
  "scene_meter_reduceNoise amount s =
     (let (m, evs) = meter_reduceNoise amount (noiseMeter s) in deliver evs (s\<lparr>noiseMeter := m\<rparr>))"

subsection \<open>The handlers of television and noise-source events\<close>

definition onTVNoiseStart :: "real \<Rightarrow> GameScene \<Rightarrow> GameScene" where
  "onTVNoiseStart noiseLevel' s =
     (if \<not> isNoiseCancelActive (inputState s)
      then (let noiseAmount = (noiseLevel' * TIMER_UPDATE_INTERVAL) / 1000
            in scene_meter_addNoise noiseAmount (scene_bear_addNoise noiseAmount s))
      else s)"

definition onNoiseSourceStart :: "real \<Rightarrow> GameScene \<Rightarrow> GameScene" where
  "onNoiseSourceStart intensity' s =
     (if \<not> isNoiseCancelActive (inputState s) \<and> \<not> hasTemporaryImmunity (powerUpManager s)
      then (let noiseAmount = (intensity' * TIMER_UPDATE_INTERVAL) / 1000;
                noiseAmount = noiseAmount * getNoiseReductionMultiplier (powerUpManager s);
                noiseAmount = noiseAmount * noiseIncreaseMultiplier (modifiers (scene_currentLevel s));
                s' = scene_meter_addNoise noiseAmount (scene_bear_addNoise noiseAmount s)
            in s'\<lparr>gameStats := (gameStats s')
                    \<lparr>maxNoiseLevel := max (maxNoiseLevel (gameStats s'))
                                          (getCurrentLevel (noiseMeter s'))\<rparr>\<rparr>)
      else s)"

fun on_bus_event :: "game_event \<Rightarrow> GameScene \<Rightarrow> GameScene" where
  "on_bus_event (EvTVNoiseStart n) s = onTVNoiseStart n s"
| "on_bus_event (EvNoiseSourceStart i n) s = onNoiseSourceStart n s"
| "on_bus_event e s = on_entity_event e s"

fun dispatch :: "game_event list \<Rightarrow> GameScene \<Rightarrow> GameScene" where
  "dispatch [] s = s"
| "dispatch (e # es) s = dispatch es (on_bus_event e s)"

subsection \<open>The countdown\<close>

definition updateScore :: "GameScene \<Rightarrow> GameScene" where
  "updateScore s =
     (let score = of_int \<lfloor>gameTimer s / 1000\<rfloor> * 10;
          score = (if perfectSleep (gameStats s) then score + 500 else score);
          score = (if stealthMode (gameStats s)
                      \<and> noiseCancelUsage (gameStats s) < level_duration (scene_currentLevel s) * 0.2
                   then score + 300 else score)
      in s\<lparr>currentScore := score\<rparr>)"

definition updateGameTimer :: "GameScene \<Rightarrow> GameScene" where
  "updateGameTimer s =
     (if gameState s \<noteq> PLAYING then s
      else (let s1 = s\<lparr>gameTimer := gameTimer s - TIMER_UPDATE_INTERVAL\<rparr>;
                s2 = (if gameTimer s1 \<le> 0 then checkVictoryCondition (s1\<lparr>gameTimer := 0\<rparr>) else s1)
            in updateScore s2))"

subsection \<open>Suppression input, pause and collected power-ups\<close>

definition updateNoiseCancelState :: "GameScene \<Rightarrow> GameScene" where
  "updateNoiseCancelState s =
     (let shouldBeActive = (spaceDown (inputState s) \<or> mouseDown (inputState s)
                            \<or> touchActive (inputState s))
      in if shouldBeActive \<noteq> isNoiseCancelActive (inputState s)
         then (let s1 = s\<lparr>inputState := (inputState s)\<lparr>isNoiseCancelActive := shouldBeActive\<rparr>\<rparr>
               in if shouldBeActive
                  then (let s2 = s1\<lparr>noiseMeter := activateNoiseCanceling (noiseMeter s1)\<rparr>
                        in if noiseCancelUsage (gameStats s2) > level_duration (scene_currentLevel s2) * 0.3
                           then s2\<lparr>gameStats := (gameStats s2)\<lparr>stealthMode := False\<rparr>\<rparr>
                           else s2)
                  else s1\<lparr>noiseMeter := deactivateNoiseCanceling (noiseMeter s1)\<rparr>)
         else s)"

definition onSpaceDown :: "GameScene \<Rightarrow> GameScene" where
  "onSpaceDown s =
     (if gameState s \<noteq> PLAYING then s
      else updateNoiseCancelState (s\<lparr>inputState := (inputState s)\<lparr>spaceDown := True\<rparr>\<rparr>))"

definition onSpaceUp :: "GameScene \<Rightarrow> GameScene" where
  "onSpaceUp s = updateNoiseCancelState (s\<lparr>inputState := (inputState s)\<lparr>spaceDown := False\<rparr>\<rparr>)"

definition startNoiseCancel :: "real \<Rightarrow> GameScene \<Rightarrow> GameScene" where
  "startNoiseCancel now s =
     (if gameState s \<noteq> PLAYING then s
      else updateNoiseCancelState
             (s\<lparr>inputState := (inputState s)\<lparr>mouseDown := True\<rparr>, noiseCancelStartTime := now\<rparr>))"

definition stopNoiseCancel :: "real \<Rightarrow> GameScene \<Rightarrow> GameScene" where
  "stopNoiseCancel now s =
     (let s1 = (if mouseDown (inputState s) \<and> noiseCancelStartTime s > 0
                then s\<lparr>gameStats := (gameStats s)
                        \<lparr>noiseCancelUsage := noiseCancelUsage (gameStats s)
                                               + (now - noiseCancelStartTime s)\<rparr>\<rparr>
                else s)
      in updateNoiseCancelState
           (s1\<lparr>inputState := (inputState s1)\<lparr>mouseDown := False\<rparr>, noiseCancelStartTime := 0\<rparr>))"

definition togglePause :: "GameScene \<Rightarrow> GameScene" where
  "togglePause s =
     (if gameState s = PLAYING then s\<lparr>gameState := PAUSED\<rparr>
      else if gameState s = PAUSED then s\<lparr>gameState := PLAYING\<rparr>
      else s)"

text \<open>
  A collected power-up: the manager's subscriber activates the type (an error thrown in a
  subscriber is caught by the bus), then the scene's subscriber counts it.
\<close>

definition onPowerUpCollected :: "PowerUpType \<Rightarrow> GameScene \<Rightarrow> GameScene" where
  "onPowerUpCollected t s =
     (let pum = (case activatePowerUp t (powerUpManager s) of
                   Inl e \<Rightarrow> powerUpManager s
                 | Inr (ok, m, evs) \<Rightarrow> m)
      in s\<lparr>powerUpManager := pum,
           gameStats := (gameStats s)\<lparr>powerUpsUsed := powerUpsUsed (gameStats s) + 1\<rparr>\<rparr>)"

subsection \<open>The frame update\<close>

text \<open>
  One frame: the time and the frame delta passed to \<^verbatim>\<open>update\<close>, the clock's
  \<^verbatim>\<open>scene.time.now\<close> and the draws of \<^verbatim>\<open>Math.random()\<close> made during the frame. The body of
  \<^verbatim>\<open>update\<close> is split at its comments into the six blocks below.
\<close>

record frame =
  f_time :: real
  f_delta :: real
  f_now :: real
  f_rnd :: "nat \<Rightarrow> real"

text \<open>\<^verbatim>\<open>NoiseMeter.update\<close> only redraws the bar, so the first block has two steps.\<close>

definition update_entities :: "GameScene \<Rightarrow> GameScene" where
  "update_entities s =
     (let s0 = scene_bear_update s;
          (tv, evs) = tv_update (television s0)
      in dispatch evs (s0\<lparr>television := tv\<rparr>))"

definition update_systems :: "frame \<Rightarrow> GameScene \<Rightarrow> GameScene" where
  "update_systems f s =
     (let (srcs, evs, k) = nsm_update (f_time f) (f_now f) (f_rnd f) 0 (noiseSourceManager s);
          s1 = dispatch evs (s\<lparr>noiseSourceManager := srcs\<rparr>);
          (pum, evs') = pum_update (f_delta f) (powerUpManager s1)
      in s1\<lparr>powerUpManager := pum\<rparr>)"

definition update_statistics :: "GameScene \<Rightarrow> GameScene" where
  "update_statistics s =
     s\<lparr>gameStats := (gameStats s)
          \<lparr>timeRemaining := gameTimer s,
           maxNoiseLevel := max (maxNoiseLevel (gameStats s)) (getCurrentLevel (noiseMeter s))\<rparr>\<rparr>"

definition update_noiseCanceling :: "frame \<Rightarrow> GameScene \<Rightarrow> GameScene" where
  "update_noiseCanceling f s =
     (if isNoiseCancelActive (inputState s)
      then (let reductionAmount = (NOISE_DECREASE_RATE * f_delta f) / 1000;
                reductionAmount = reductionAmount * getNoiseCancellationMultiplier (powerUpManager s);
                reductionAmount = reductionAmount * noiseDecreaseMultiplier (modifiers (scene_currentLevel s))
            in scene_meter_reduceNoise reductionAmount (scene_bear_reduceNoise reductionAmount s))
      else s)"

definition update_tvNoise :: "frame \<Rightarrow> GameScene \<Rightarrow> GameScene" where
  "update_tvNoise f s =
     (if tv_isOn (television s) \<and> \<not> isNoiseCancelActive (inputState s)
         \<and> \<not> hasTemporaryImmunity (powerUpManager s)
      then (let noiseAmount = (NOISE_INCREASE_RATE * f_delta f) / 1000;
                noiseAmount = noiseAmount * getNoiseReductionMultiplier (powerUpManager s);
                noiseAmount = noiseAmount * noiseIncreaseMultiplier (modifiers (scene_currentLevel s))
            in scene_meter_addNoise noiseAmount (scene_bear_addNoise noiseAmount s))
      else s)"

definition update_sourceNoise :: "frame \<Rightarrow> GameScene \<Rightarrow> GameScene" where
  "update_sourceNoise f s =
     (let totalNoiseSourceLevel = getTotalNoiseLevel (noiseSourceManager s)
      in if totalNoiseSourceLevel > 0 \<and> \<not> isNoiseCancelActive (inputState s)
            \<and> \<not> hasTemporaryImmunity (powerUpManager s)
         then (let noiseAmount = (totalNoiseSourceLevel * f_delta f) / 1000;
                   noiseAmount = noiseAmount * getNoiseReductionMultiplier (powerUpManager s);
                   noiseAmount = noiseAmount * noiseIncreaseMultiplier (modifiers (scene_currentLevel s))
               in scene_meter_addNoise noiseAmount (scene_bear_addNoise noiseAmount s))
         else s)"

definition update :: "frame \<Rightarrow> GameScene \<Rightarrow> GameScene" where
  "update f s =
     (if gameState s \<noteq> PLAYING then s
      else update_sourceNoise f
             (update_tvNoise f
               (update_noiseCanceling f
                 (update_statistics
                   (update_systems f
                     (update_entities s))))))"

subsection \<open>A round\<close>

text \<open>
  \<^verbatim>\<open>init\<close> and \<^verbatim>\<open>create\<close>: the scene at the start of a round of the given level. The
  television is constructed first and takes the first draw of \<open>rnd\<close>, the noise sources
  take the following ones.
\<close>

definition GameScene_new :: "LevelConfig \<Rightarrow> real \<Rightarrow> (nat \<Rightarrow> real) \<Rightarrow> GameScene" where
  "GameScene_new level now rnd =
     \<lparr>bear = Bear_new,
      television = configure (level_tvConfig level) (Television_new (rnd 0)),
      noiseMeter = NoiseMeter_new,
      noiseSourceManager = fst (createNoiseSources now rnd 1 (noiseSources level) []),
      powerUpManager = setAvailablePowerUps (level_availablePowerUps level) PowerUpManager_new,
      scene_currentLevel = level,
      gameState = PLAYING,
      gameTimer = level_duration level,
      inputState = \<lparr>isNoiseCancelActive = False, mouseDown = False, spaceDown = False,
                     touchActive = False\<rparr>,
      gameStats = \<lparr>timeRemaining = level_duration level, maxNoiseLevel = 0, noiseCancelUsage = 0,
                    powerUpsUsed = 0, perfectSleep = True, stealthMode = True\<rparr>,
      noiseCancelStartTime = 0,
      currentScore = 0\<rparr>"

text \<open>
  What can happen to the scene during a round: a frame, a tick of the countdown timer, the
  input signals, a spawned and a collected power-up, the television's timers and tweens, and
  the delayed creation of a noise source.
\<close>

datatype scene_call =
  Frame frame
  | TimerTick
  | SpaceDown
  | SpaceUp
  | PointerDown real
  | PointerUp real
  | TogglePause
  | SpawnPowerUp real
  | Collect PowerUpType
  | TvTimerTurnOn
  | TvTimerTurnOff
  | TvTweenComplete real
  | SourceCreated real "nat \<Rightarrow> real" NoiseSourceConfig

fun run_scene_call :: "scene_call \<Rightarrow> GameScene \<Rightarrow> GameScene" where
  "run_scene_call (Frame f) s = update f s"
| "run_scene_call TimerTick s = updateGameTimer s"
| "run_scene_call SpaceDown s = onSpaceDown s"
| "run_scene_call SpaceUp s = onSpaceUp s"
| "run_scene_call (PointerDown now) s = startNoiseCancel now s"
| "run_scene_call (PointerUp now) s = stopNoiseCancel now s"
| "run_scene_call TogglePause s = togglePause s"
| "run_scene_call (SpawnPowerUp r) s = s\<lparr>powerUpManager := spawnRandomPowerUp r (powerUpManager s)\<rparr>"
| "run_scene_call (Collect t) s = onPowerUpCollected t s"
| "run_scene_call TvTimerTurnOn s = s\<lparr>television := turnOn (television s)\<rparr>"
| "run_scene_call TvTimerTurnOff s = s\<lparr>television := turnOff (television s)\<rparr>"
| "run_scene_call (TvTweenComplete r) s = s\<lparr>television := fst (tween_complete r (television s))\<rparr>"
| "run_scene_call (SourceCreated now rnd c) s =
     s\<lparr>noiseSourceManager := fst (createNoiseSource now rnd 0 c (noiseSourceManager s))\<rparr>"

fun run_scene_calls :: "scene_call list \<Rightarrow> GameScene \<Rightarrow> GameScene" where
  "run_scene_calls [] s = s"
| "run_scene_calls (c # cs) s = run_scene_calls cs (run_scene_call c s)"

text \<open>Level 5 (\<^verbatim>\<open>Construction Zone\<close>) of the level manager's table.\<close>

definition level5 :: LevelConfig where
  "level5 =
     \<lparr>level_id = 5, level_duration = 75000,
      level_tvConfig =
        \<lparr>initialDelayMin = 8000, initialDelayMax = 15000,
         subsequentDelayMin = 8000, subsequentDelayMax = 15000,
         activeDurationMin = 10000, activeDurationMax = 18000\<rparr>,
      noiseSources =
        [\<lparr>ns_id = ''drilling'', ns_type = Construction, intensity = 6, pattern = Scheduled,
          frequency = 2, duration = 5000, startDelay = Some 10000\<rparr>,
         \<lparr>ns_id = ''hammering'', ns_type = Construction, intensity = 5, pattern = Random,
          frequency = 1.5, duration = 3000, startDelay = Some 20000\<rparr>,
         \<lparr>ns_id = ''machinery'', ns_type = Construction, intensity = 8, pattern = Continuous,
          frequency = 0.5, duration = 15000, startDelay = Some 45000\<rparr>],
      level_availablePowerUps = [ESPRESSO_SHOT, SOUND_SHIELD, MEDITATION_STATE],
      modifiers = \<lparr>noiseIncreaseMultiplier = 1.3, noiseDecreaseMultiplier = 0.9,
                    bearSensitivity = 1.2\<rparr>\<rparr>"

section \<open>Rounds and their invariants\<close>

text \<open>The scene after the calls \<open>cs\<close> of a round of the given level.\<close>

definition round_state :: "LevelConfig \<Rightarrow> real \<Rightarrow> (nat \<Rightarrow> real) \<Rightarrow> scene_call list \<Rightarrow> GameScene" where
  "round_state level now rnd cs = run_scene_calls cs (GameScene_new level now rnd)"

text \<open>
  Two relations between the parts of a scene: the bear's noise accumulator and threshold equal
  the meter's level and maximum; and the meter's maximum is 100 and the meter is below it
  unless the round is over.
\<close>

definition in_sync :: "GameScene \<Rightarrow> bool" where
  "in_sync s =
     (currentNoise (bear s) = currentLevel (noiseMeter s)
      \<and> wakeThreshold (bear s) = maxLevel (noiseMeter s))"

definition full_is_over :: "GameScene \<Rightarrow> bool" where
  "full_is_over s =
     (maxLevel (noiseMeter s) = WAKE_METER_MAX
      \<and> (currentLevel (noiseMeter s) < 100 \<or> gameState s = GAME_OVER))"

text \<open>
  Concrete frames and scenes of level 5: a frame of 16 ms and one of 60 s; the scene after the
  television was switched on; the same scene after the sound shield was collected as well; and
  a scene with the meter at 99 and one tick left on the countdown.
\<close>

definition frame16 :: frame where
  "frame16 = \<lparr>f_time = 16, f_delta = 16, f_now = 16, f_rnd = (\<lambda>k. 0)\<rparr>"

definition long_frame :: frame where
  "long_frame = \<lparr>f_time = 60000, f_delta = 60000, f_now = 60000, f_rnd = (\<lambda>k. 0)\<rparr>"

definition shield_scene :: GameScene where
  "shield_scene =
     run_scene_calls [TvTimerTurnOn, TvTweenComplete 0, Collect SOUND_SHIELD]
       (GameScene_new level5 0 (\<lambda>k. 0))"

definition tv_on_scene :: GameScene where
  "tv_on_scene = round_state level5 0 (\<lambda>k. 0) [TvTimerTurnOn, TvTweenComplete 0]"

definition last_tick_scene :: GameScene where
  "last_tick_scene =
     (GameScene_new level5 0 (\<lambda>k. 0))
       \<lparr>noiseMeter := NoiseMeter_new\<lparr>currentLevel := 99\<rparr>,
        bear := Bear_new\<lparr>currentState := DROWSY, currentNoise := 99\<rparr>,
        gameTimer := 100\<rparr>"

section \<open>Properties of the wake meter\<close>

lemma run_call_maxLevel: "maxLevel (run_call c m) = maxLevel m"
  by (cases c) (simp_all add: meter_addNoise_def meter_reduceNoise_def Let_def)

lemma run_call_bounds:
  assumes "0 \<le> call_amount c" and "0 \<le> currentLevel m" and "currentLevel m \<le> maxLevel m"
  shows "0 \<le> currentLevel (run_call c m) \<and> currentLevel (run_call c m) \<le> maxLevel m"
proof (cases c)
  case (AddNoise a)
  with assms show ?thesis
    by (simp add: meter_addNoise_def Let_def)
next
  case (ReduceNoise a)
  with assms show ?thesis
    by (simp add: meter_reduceNoise_def Let_def)
qed

lemma run_calls_bounds:
  assumes "\<forall>c \<in> set cs. 0 \<le> call_amount c"
    and "0 \<le> currentLevel m" and "currentLevel m \<le> maxLevel m"
  shows "0 \<le> currentLevel (run_calls cs m) \<and> currentLevel (run_calls cs m) \<le> maxLevel m"
  using assms
proof (induction cs arbitrary: m)
  case Nil
  then show ?case by simp
next
  case (Cons c cs)
  have step: "0 \<le> currentLevel (run_call c m) \<and> currentLevel (run_call c m) \<le> maxLevel m"
    using Cons.prems by (intro run_call_bounds) simp_all
  have "0 \<le> currentLevel (run_calls cs (run_call c m))
      \<and> currentLevel (run_calls cs (run_call c m)) \<le> maxLevel (run_call c m)"
    using Cons.prems step by (intro Cons.IH) (simp_all add: run_call_maxLevel)
  then show ?case by (simp add: run_call_maxLevel)
qed

text \<open>
  Claim C1. Starting from the meter a round creates (level 0, maximum 100), after any
  sequence of \<^verbatim>\<open>addNoise\<close> and \<^verbatim>\<open>reduceNoise\<close> calls whose amounts are all non-negative the
  level lies between 0 and 100. Every prefix of a sequence is a sequence, so the bound holds
  after each call and not only at the end.
\<close>

theorem C1_meter_level_bounded:
  assumes "\<forall>c \<in> set cs. 0 \<le> call_amount c"
  shows "0 \<le> currentLevel (run_calls cs NoiseMeter_new)
       \<and> currentLevel (run_calls cs NoiseMeter_new) \<le> 100"
proof -
  have "0 \<le> currentLevel (run_calls cs NoiseMeter_new)
      \<and> currentLevel (run_calls cs NoiseMeter_new) \<le> maxLevel NoiseMeter_new"
    using assms by (intro run_calls_bounds) (simp_all add: NoiseMeter_new_def WAKE_METER_MAX_def)
  then show ?thesis by (simp add: NoiseMeter_new_def WAKE_METER_MAX_def)
qed

theorem C1_meter_level_bounded_witness:
  "0 \<le> currentLevel (run_calls [AddNoise 70, AddNoise 45, ReduceNoise 130, AddNoise 3] NoiseMeter_new)
   \<and> currentLevel (run_calls [AddNoise 70, AddNoise 45, ReduceNoise 130, AddNoise 3] NoiseMeter_new) \<le> 100
   \<and> currentLevel (run_calls [AddNoise 70, AddNoise 45] NoiseMeter_new) = 100
   \<and> currentLevel (run_calls [AddNoise 70, AddNoise 45, ReduceNoise 130] NoiseMeter_new) = 0"
proof -
  have h: "\<forall>c \<in> set [AddNoise 70, AddNoise 45, ReduceNoise 130, AddNoise 3]. 0 \<le> call_amount c"
    by simp
  have "currentLevel (run_calls [AddNoise 70, AddNoise 45] NoiseMeter_new) = 100"
    by (simp add: meter_addNoise_def NoiseMeter_new_def WAKE_METER_MAX_def Let_def)
  moreover have "currentLevel (run_calls [AddNoise 70, AddNoise 45, ReduceNoise 130] NoiseMeter_new) = 0"
    by (simp add: meter_addNoise_def meter_reduceNoise_def NoiseMeter_new_def WAKE_METER_MAX_def Let_def)
  ultimately show ?thesis
    using C1_meter_level_bounded [OF h] by simp
qed

text \<open>
  Claim C6. On a meter whose maximum is 100, \<^verbatim>\<open>addNoise amount\<close> sets the level to
  \<^verbatim>\<open>min (level + amount) 100\<close>; it emits one meter-update notification (carrying the new level,
  flagged as increasing) when the level changed and nothing when it did not; and at level 100
  a positive amount leaves the level at 100 and emits nothing.
\<close>

theorem C6_addNoise_min_and_event:
  assumes "maxLevel m = WAKE_METER_MAX"
  shows "currentLevel (fst (meter_addNoise amount m)) = min (currentLevel m + amount) 100
       \<and> (snd (meter_addNoise amount m) \<noteq> [] \<longleftrightarrow>
            currentLevel (fst (meter_addNoise amount m)) \<noteq> currentLevel m)
       \<and> (snd (meter_addNoise amount m) = [] \<or>
            snd (meter_addNoise amount m) =
              [EvMeterUpdate (currentLevel (fst (meter_addNoise amount m)))
                 (getPercentage (fst (meter_addNoise amount m))) True])
       \<and> (currentLevel m = 100 \<and> 0 < amount \<longrightarrow>
            currentLevel (fst (meter_addNoise amount m)) = 100 \<and> snd (meter_addNoise amount m) = [])"
  using assms by (simp add: meter_addNoise_def WAKE_METER_MAX_def Let_def)

theorem C6_addNoise_min_and_event_witness:
  "maxLevel (NoiseMeter_new\<lparr>currentLevel := 100\<rparr>) = WAKE_METER_MAX
   \<and> currentLevel (fst (meter_addNoise 5 (NoiseMeter_new\<lparr>currentLevel := 100\<rparr>))) = 100
   \<and> snd (meter_addNoise 5 (NoiseMeter_new\<lparr>currentLevel := 100\<rparr>)) = []"
proof -
  have h: "maxLevel (NoiseMeter_new\<lparr>currentLevel := 100\<rparr>) = WAKE_METER_MAX"
    by (simp add: NoiseMeter_new_def)
  have l: "currentLevel (NoiseMeter_new\<lparr>currentLevel := 100\<rparr>) = 100"
    by simp
  show ?thesis
    using h l C6_addNoise_min_and_event [OF h, of 5] by simp
qed

section \<open>Properties of the bear\<close>


lemma updateState_tier:
  "currentState (fst (updateStateBasedOnNoise b)) =
     (if getNoisePercentage b \<ge> 100 then AWAKE
      else if getNoisePercentage b \<ge> 50 then DROWSY else SLEEPING)"
  by (simp add: updateStateBasedOnNoise_def Let_def)

lemma updateState_events:
  "snd (updateStateBasedOnNoise b) =
     (if currentState (fst (updateStateBasedOnNoise b)) = currentState b then []
      else EvBearStateChange (currentState b) (currentState (fst (updateStateBasedOnNoise b)))
             (currentNoise b) (getNoisePercentage b)
           # (if currentState (fst (updateStateBasedOnNoise b)) = AWAKE
              then [EvBearWakeUp (currentNoise b)] else []))"
  by (simp add: updateStateBasedOnNoise_def Let_def)

text \<open>
  Claim C4. The tier that \<^verbatim>\<open>updateStateBasedOnNoise\<close> stores depends on the noise percentage
  alone: below 50 it is \<^verbatim>\<open>SLEEPING\<close>, from 50 up to but not including 100 it is \<^verbatim>\<open>DROWSY\<close>,
  from 100 on it is \<^verbatim>\<open>AWAKE\<close>; two bears with the same percentage get the same tier whatever
  their previous tiers were; evaluating again changes nothing and emits nothing; and events
  are emitted exactly when the computed tier differs from the previous one, the first of them
  being the state-change notification with the old and the new tier.
\<close>

theorem C4_tier_is_function_of_percentage:
  "(getNoisePercentage b < 50 \<longrightarrow> currentState (fst (updateStateBasedOnNoise b)) = SLEEPING)
 \<and> (50 \<le> getNoisePercentage b \<and> getNoisePercentage b < 100 \<longrightarrow>
        currentState (fst (updateStateBasedOnNoise b)) = DROWSY)
 \<and> (100 \<le> getNoisePercentage b \<longrightarrow> currentState (fst (updateStateBasedOnNoise b)) = AWAKE)
 \<and> (getNoisePercentage b' = getNoisePercentage b \<longrightarrow>
        currentState (fst (updateStateBasedOnNoise b')) = currentState (fst (updateStateBasedOnNoise b)))
 \<and> updateStateBasedOnNoise (fst (updateStateBasedOnNoise b)) = (fst (updateStateBasedOnNoise b), [])
 \<and> (snd (updateStateBasedOnNoise b) \<noteq> [] \<longleftrightarrow>
        currentState (fst (updateStateBasedOnNoise b)) \<noteq> currentState b)
 \<and> (currentState (fst (updateStateBasedOnNoise b)) \<noteq> currentState b \<longrightarrow>
        hd (snd (updateStateBasedOnNoise b)) =
          EvBearStateChange (currentState b) (currentState (fst (updateStateBasedOnNoise b)))
            (currentNoise b) (getNoisePercentage b))"
proof -
  have idem: "updateStateBasedOnNoise (fst (updateStateBasedOnNoise b)) = (fst (updateStateBasedOnNoise b), [])"
    by (simp add: updateStateBasedOnNoise_def getNoisePercentage_def Let_def)
  show ?thesis
    using idem by (simp add: updateState_tier updateState_events)
qed

theorem C4_tier_is_function_of_percentage_witness:
  "getNoisePercentage (Bear_new\<lparr>currentNoise := 49\<rparr>) < 50
   \<and> currentState (fst (updateStateBasedOnNoise (Bear_new\<lparr>currentNoise := 49\<rparr>))) = SLEEPING
   \<and> currentState (fst (updateStateBasedOnNoise (Bear_new\<lparr>currentNoise := 50\<rparr>))) = DROWSY
   \<and> currentState (fst (updateStateBasedOnNoise (Bear_new\<lparr>currentNoise := 99\<rparr>))) = DROWSY
   \<and> currentState (fst (updateStateBasedOnNoise (Bear_new\<lparr>currentNoise := 100\<rparr>))) = AWAKE
   \<and> snd (updateStateBasedOnNoise (Bear_new\<lparr>currentNoise := 49\<rparr>)) = []
   \<and> snd (updateStateBasedOnNoise (Bear_new\<lparr>currentNoise := 50\<rparr>)) =
       [EvBearStateChange SLEEPING DROWSY 50 50]"
proof -
  have p49: "getNoisePercentage (Bear_new\<lparr>currentNoise := 49\<rparr>) = 49"
    and p50: "getNoisePercentage (Bear_new\<lparr>currentNoise := 50\<rparr>) = 50"
    and p99: "getNoisePercentage (Bear_new\<lparr>currentNoise := 99\<rparr>) = 99"
    and p100: "getNoisePercentage (Bear_new\<lparr>currentNoise := 100\<rparr>) = 100"
    by (simp_all add: getNoisePercentage_def Bear_new_def WAKE_METER_MAX_def)
  have s0: "currentState (Bear_new\<lparr>currentNoise := 49\<rparr>) = SLEEPING"
    by (simp add: Bear_new_def)
  have e50: "snd (updateStateBasedOnNoise (Bear_new\<lparr>currentNoise := 50\<rparr>)) =
       [EvBearStateChange SLEEPING DROWSY 50 50]"
    by (simp add: updateStateBasedOnNoise_def getNoisePercentage_def Bear_new_def WAKE_METER_MAX_def Let_def)
  show ?thesis
    using C4_tier_is_function_of_percentage [of "Bear_new\<lparr>currentNoise := 49\<rparr>" "Bear_new\<lparr>currentNoise := 49\<rparr>"]
      C4_tier_is_function_of_percentage [of "Bear_new\<lparr>currentNoise := 50\<rparr>" "Bear_new\<lparr>currentNoise := 50\<rparr>"]
      C4_tier_is_function_of_percentage [of "Bear_new\<lparr>currentNoise := 99\<rparr>" "Bear_new\<lparr>currentNoise := 99\<rparr>"]
      C4_tier_is_function_of_percentage [of "Bear_new\<lparr>currentNoise := 100\<rparr>" "Bear_new\<lparr>currentNoise := 100\<rparr>"]
      p49 p50 p99 p100 s0 e50
    by simp
qed






section \<open>Properties of the television\<close>

lemma tv_inv_new: "tv_inv (Television_new r)"
  by (simp add: tv_inv_def Television_new_def tv_scheduleNextActivation_def Let_def)

lemma configure_keeps: "tvState (configure c tv) = tvState tv" "tweens (configure c tv) = tweens tv"
  by (simp_all add: configure_def)

lemma tv_inv_configure: "tv_inv (configure c tv) = tv_inv tv"
  unfolding tv_inv_def configure_keeps by (rule refl)

lemma tv_inv_call: "tv_inv tv \<Longrightarrow> tv_inv (run_tv_call c tv)"
proof (cases c)
  case CallTurnOn
  assume "tv_inv tv"
  with CallTurnOn show ?thesis
    by (auto simp: tv_inv_def turnOn_def split: TVState.splits)
next
  case CallTurnOff
  assume "tv_inv tv"
  with CallTurnOff show ?thesis
    by (auto simp: tv_inv_def turnOff_def split: TVState.splits)
next
  case (TweenComplete r)
  assume "tv_inv tv"
  with TweenComplete show ?thesis
    by (cases "tv_currentState (tvState tv)")
      (simp_all add: tv_inv_def tween_complete_def turnOn_onComplete_def turnOff_onComplete_def
        scheduleDeactivation_def tv_scheduleNextActivation_def Let_def)
next
  case CallUpdate
  assume "tv_inv tv"
  with CallUpdate show ?thesis
    by (simp add: tv_update_def)
next
  case (CallConfigure cfg)
  assume "tv_inv tv"
  with CallConfigure show ?thesis
    by (simp add: tv_inv_configure)
qed

lemma tv_inv_calls: "tv_inv tv \<Longrightarrow> tv_inv (run_tv_calls cs tv)"
  by (induction cs arbitrary: tv) (simp_all add: tv_inv_call)

text \<open>
  Claim C7 as stated fails: after the television was turned on, the turning-on tween completed
  and \<^verbatim>\<open>turnOff\<close> was called, the phase is \<^verbatim>\<open>TURNING_OFF\<close> while the intensity is still 15 and
  \<^verbatim>\<open>isOn\<close> is still true (both are reset when the turning-off tween completes).
\<close>

theorem C7_turning_off_still_emits:
  "tv_currentState (tvState (run_tv_calls [CallTurnOn, TweenComplete 0, CallTurnOff] (Television_new 0)))
     = TURNING_OFF
   \<and> getNoiseLevel (run_tv_calls [CallTurnOn, TweenComplete 0, CallTurnOff] (Television_new 0)) = 15
   \<and> tv_isOn (run_tv_calls [CallTurnOn, TweenComplete 0, CallTurnOff] (Television_new 0))"
  by (simp add: Television_new_def tv_scheduleNextActivation_def turnOn_def turnOff_def
      tween_complete_def turnOn_onComplete_def scheduleDeactivation_def getNoiseLevel_def tv_isOn_def
      NOISE_INCREASE_RATE_def Let_def)

text \<open>
  Claim C7, amended. In every state the television reaches from its constructor, the intensity
  is 0 and \<^verbatim>\<open>isOn\<close> is false in the phases \<^verbatim>\<open>OFF\<close> and \<^verbatim>\<open>TURNING_ON\<close>; the intensity is
  \<^verbatim>\<open>NOISE_INCREASE_RATE\<close> and \<^verbatim>\<open>isOn\<close> is true in the phases \<^verbatim>\<open>ON\<close> and \<^verbatim>\<open>TURNING_OFF\<close>; the
  intensity is never negative; and \<^verbatim>\<open>update\<close> emits the per-frame noise event only in the
  phase \<^verbatim>\<open>ON\<close>.
\<close>

theorem C7_intensity_by_phase:
  "(tv_currentState (tvState (run_tv_calls cs (Television_new r))) \<in> {OFF, TURNING_ON} \<longrightarrow>
      getNoiseLevel (run_tv_calls cs (Television_new r)) = 0
      \<and> \<not> tv_isOn (run_tv_calls cs (Television_new r)))
 \<and> (tv_currentState (tvState (run_tv_calls cs (Television_new r))) \<in> {ON, TURNING_OFF} \<longrightarrow>
      getNoiseLevel (run_tv_calls cs (Television_new r)) = NOISE_INCREASE_RATE
      \<and> tv_isOn (run_tv_calls cs (Television_new r)))
 \<and> 0 \<le> getNoiseLevel (run_tv_calls cs (Television_new r))
 \<and> (snd (tv_update (run_tv_calls cs (Television_new r))) \<noteq> [] \<longrightarrow>
      tv_currentState (tvState (run_tv_calls cs (Television_new r))) = ON)"
proof -
  have "tv_inv (run_tv_calls cs (Television_new r))"
    by (intro tv_inv_calls tv_inv_new)
  then show ?thesis
    by (cases "tv_currentState (tvState (run_tv_calls cs (Television_new r)))")
      (simp_all add: tv_inv_def getNoiseLevel_def tv_isOn_def tv_update_def NOISE_INCREASE_RATE_def)
qed

theorem C7_intensity_by_phase_witness:
  "tv_currentState (tvState (run_tv_calls [CallTurnOn] (Television_new 0))) = TURNING_ON
   \<and> getNoiseLevel (run_tv_calls [CallTurnOn] (Television_new 0)) = 0
   \<and> \<not> tv_isOn (run_tv_calls [CallTurnOn] (Television_new 0))
   \<and> tv_currentState (tvState (run_tv_calls [CallTurnOn, TweenComplete 0] (Television_new 0))) = ON
   \<and> getNoiseLevel (run_tv_calls [CallTurnOn, TweenComplete 0] (Television_new 0)) = 15"
proof -
  have s1: "tv_currentState (tvState (run_tv_calls [CallTurnOn] (Television_new 0))) = TURNING_ON"
    by (simp add: Television_new_def tv_scheduleNextActivation_def turnOn_def Let_def)
  have s2: "tv_currentState (tvState (run_tv_calls [CallTurnOn, TweenComplete 0] (Television_new 0))) = ON"
    by (simp add: Television_new_def tv_scheduleNextActivation_def turnOn_def
      tween_complete_def turnOn_onComplete_def scheduleDeactivation_def Let_def)
  show ?thesis
    using s1 s2 C7_intensity_by_phase [of "[CallTurnOn]" 0]
      C7_intensity_by_phase [of "[CallTurnOn, TweenComplete 0]" 0]
    by (simp add: NOISE_INCREASE_RATE_def)
qed

section \<open>Properties of the ambient noise sources\<close>

lemma activate_end:
  "currentEventEndTime (fst (activate now rnd k src)) =
     now + (duration (config src) + (rnd k * 2000 - 1000))"
  by (simp add: activate_def ns_scheduleNextActivation_def Let_def
      split: NoisePattern.splits prod.splits)

lemma activate_isActive: "ns_isActive (fst (activate now rnd k src))"
  by (simp add: activate_def ns_scheduleNextActivation_def Let_def
      split: NoisePattern.splits prod.splits)

text \<open>
  Claim C8 as stated fails: the source \<^verbatim>\<open>traffic_horns\<close> has a configured duration of 2000 ms,
  and an activation at time 5000 whose draw is 0 ends at time 6000, after 1000 ms, which is
  less than 0.9 times 2000.
\<close>

theorem C8_jitter_is_not_ten_percent:
  "currentEventEndTime
     (fst (activate 5000 (\<lambda>k. 0) 0 (fst (NoiseSource_new 0 (\<lambda>k. 0) 0 traffic_horns)))) - 5000 = 1000
   \<and> \<not> (0.9 * duration traffic_horns \<le>
         currentEventEndTime
           (fst (activate 5000 (\<lambda>k. 0) 0 (fst (NoiseSource_new 0 (\<lambda>k. 0) 0 traffic_horns)))) - 5000)"
  by (simp add: activate_end NoiseSource_new_def ns_scheduleNextActivation_def traffic_horns_def)

text \<open>
  Claim C8, amended. An activation marks the source active and sets the end of the active
  period to the current time plus the configured duration plus \<^verbatim>\<open>Math.random() * 2000 - 1000\<close>:
  for a draw in \<open>[0, 1)\<close> the sampled duration is at least the configured duration minus
  1000 ms and at most the configured duration plus 1000 ms. The upper bound is not strict, so
  that it also holds of the rounded sum the program computes.
\<close>

theorem C8_jitter_is_one_second:
  assumes "0 \<le> rnd k" and "rnd k < 1"
  shows "ns_isActive (fst (activate now rnd k src))
       \<and> currentEventEndTime (fst (activate now rnd k src)) - now =
           duration (config src) + (rnd k * 2000 - 1000)
       \<and> duration (config src) - 1000 \<le> currentEventEndTime (fst (activate now rnd k src)) - now
       \<and> currentEventEndTime (fst (activate now rnd k src)) - now \<le> duration (config src) + 1000"
  using assms by (simp add: activate_end activate_isActive)

theorem C8_jitter_is_one_second_witness:
  "(0::real) \<le> (\<lambda>k. 1 / 4) (0::nat) \<and> (\<lambda>k. 1 / 4) (0::nat) < (1::real)
   \<and> currentEventEndTime
       (fst (activate 5000 (\<lambda>k. 1 / 4) 0 (fst (NoiseSource_new 0 (\<lambda>k. 1 / 4) 0 traffic_horns)))) - 5000
     = 1500"
proof -
  have h1: "(0::real) \<le> (\<lambda>k. 1 / 4) (0::nat)" and h2: "(\<lambda>k. 1 / 4) (0::nat) < (1::real)"
    by simp_all
  have d: "duration (config (fst (NoiseSource_new 0 (\<lambda>k. 1 / 4) 0 traffic_horns))) = 2000"
    by (simp add: NoiseSource_new_def ns_scheduleNextActivation_def traffic_horns_def)
  show ?thesis
    using h1 h2 d
      C8_jitter_is_one_second [where rnd = "\<lambda>k. 1 / 4" and k = 0 and now = 5000
        and src = "fst (NoiseSource_new 0 (\<lambda>k. 1 / 4) 0 traffic_horns)"]
    by simp
qed

section \<open>Properties of the power-up manager\<close>

lemma getPowerUpConfig_total:
  "\<exists>c. getPowerUpConfig t = Inr c \<and> pu_type c = t
     \<and> pu_duration c = (case t of ESPRESSO_SHOT \<Rightarrow> 15000 | NOISE_HEADPHONES \<Rightarrow> 20000
          | WHITE_NOISE_MACHINE \<Rightarrow> 12000 | MEDITATION_STATE \<Rightarrow> 10000 | SOUND_SHIELD \<Rightarrow> 8000
          | WINDOW_CONTROL \<Rightarrow> 25000)"
  by (cases t) (simp_all add: getPowerUpConfig_def powerUpConfigs_def)

lemma not_active_no_entry:
  assumes "\<not> isActivePowerUp t m"
  shows "filter (\<lambda>e. fst e = t) (activePowerUps m) = []"
proof -
  have "t \<notin> fst ` set (activePowerUps m)"
    using assms by (simp add: isActivePowerUp_def map_of_eq_None_iff)
  then show ?thesis
    by (auto simp: filter_empty_conv)
qed

text \<open>
  Claim C9. For every power-up type \<^verbatim>\<open>t\<close>: when an instance of \<^verbatim>\<open>t\<close> is active,
  \<^verbatim>\<open>activatePowerUp t\<close> returns false, leaves the manager as it is (so the remaining duration of
  the active instance too) and emits nothing; otherwise the type has a configuration, the call
  returns true, appends to the active power-ups one instance of \<^verbatim>\<open>t\<close> whose remaining duration
  is the configured duration of \<^verbatim>\<open>t\<close>, which is then the only active instance of \<^verbatim>\<open>t\<close>, and
  emits the activated notification with that duration.
\<close>

theorem C9_activate_rejects_duplicate:
  "(isActivePowerUp t m \<longrightarrow> activatePowerUp t m = Inr (False, m, []))
 \<and> (\<not> isActivePowerUp t m \<longrightarrow>
      (\<exists>c. getPowerUpConfig t = Inr c
         \<and> pu_duration c = (case t of ESPRESSO_SHOT \<Rightarrow> 15000 | NOISE_HEADPHONES \<Rightarrow> 20000
              | WHITE_NOISE_MACHINE \<Rightarrow> 12000 | MEDITATION_STATE \<Rightarrow> 10000 | SOUND_SHIELD \<Rightarrow> 8000
              | WINDOW_CONTROL \<Rightarrow> 25000)
         \<and> activatePowerUp t m =
             Inr (True,
                  m\<lparr>activePowerUps := activePowerUps m @
                      [(t, \<lparr>ap_type = t, ap_config = c, remainingDuration = pu_duration c,
                            ap_isActive = True\<rparr>)]\<rparr>,
                  [EvPowerUpActivated t (pu_duration c)])
         \<and> length (filter (\<lambda>e. fst e = t)
               (activePowerUps m @
                  [(t, \<lparr>ap_type = t, ap_config = c, remainingDuration = pu_duration c,
                        ap_isActive = True\<rparr>)])) = 1))"
proof (cases "isActivePowerUp t m")
  case True
  then show ?thesis by (simp add: activatePowerUp_def)
next
  case False
  obtain c where c: "getPowerUpConfig t = Inr c"
    and d: "pu_duration c = (case t of ESPRESSO_SHOT \<Rightarrow> 15000 | NOISE_HEADPHONES \<Rightarrow> 20000
          | WHITE_NOISE_MACHINE \<Rightarrow> 12000 | MEDITATION_STATE \<Rightarrow> 10000 | SOUND_SHIELD \<Rightarrow> 8000
          | WINDOW_CONTROL \<Rightarrow> 25000)"
    using getPowerUpConfig_total [of t] by blast
  have act: "activatePowerUp t m =
             Inr (True,
                  m\<lparr>activePowerUps := activePowerUps m @
                      [(t, \<lparr>ap_type = t, ap_config = c, remainingDuration = pu_duration c,
                            ap_isActive = True\<rparr>)]\<rparr>,
                  [EvPowerUpActivated t (pu_duration c)])"
    using False c by (simp add: activatePowerUp_def ActivePowerUp_new_def)
  have one: "length (filter (\<lambda>e. fst e = t)
               (activePowerUps m @
                  [(t, \<lparr>ap_type = t, ap_config = c, remainingDuration = pu_duration c,
                        ap_isActive = True\<rparr>)])) = 1"
    using not_active_no_entry [OF False] by simp
  show ?thesis
    using False c d act one by blast
qed

lemma shielded_eq:
  "shielded =
     \<lparr>availablePowerUps = [],
      activePowerUps =
        [(SOUND_SHIELD,
          \<lparr>ap_type = SOUND_SHIELD,
           ap_config =
             \<lparr>pu_type = SOUND_SHIELD, pu_name = ''Sound Shield'',
              description = ''Complete immunity to noise for 8 seconds'', pu_duration = 8000,
              cooldown = 60000, effect = no_effect\<lparr>temporaryImmunity := Some True\<rparr>\<rparr>,
           remainingDuration = 3000, ap_isActive = True\<rparr>)],
      powerUpCooldowns = []\<rparr>"
  by (simp add: shielded_def activatePowerUp_def isActivePowerUp_def PowerUpManager_new_def
      getPowerUpConfig_def powerUpConfigs_def ActivePowerUp_new_def pum_update_def ap_update_def)

theorem C9_activate_rejects_duplicate_witness:
  "isActivePowerUp SOUND_SHIELD shielded
   \<and> activatePowerUp SOUND_SHIELD shielded = Inr (False, shielded, [])
   \<and> map (\<lambda>e. remainingDuration (snd e)) (activePowerUps shielded) = [3000]
   \<and> \<not> isActivePowerUp MEDITATION_STATE shielded
   \<and> (case activatePowerUp MEDITATION_STATE shielded of
         Inl e \<Rightarrow> []
       | Inr (ok, m, evs) \<Rightarrow> map (\<lambda>e. (fst e, remainingDuration (snd e))) (activePowerUps m))
       = [(SOUND_SHIELD, 3000), (MEDITATION_STATE, 10000)]"
proof -
  have a: "isActivePowerUp SOUND_SHIELD shielded"
    and b: "\<not> isActivePowerUp MEDITATION_STATE shielded"
    and c: "map (\<lambda>e. remainingDuration (snd e)) (activePowerUps shielded) = [3000]"
    and d: "map (\<lambda>e. (fst e, remainingDuration (snd e))) (activePowerUps shielded) = [(SOUND_SHIELD, 3000)]"
    by (simp_all add: shielded_eq isActivePowerUp_def)
  show ?thesis
    using a b c d C9_activate_rejects_duplicate [of SOUND_SHIELD shielded]
      C9_activate_rejects_duplicate [of MEDITATION_STATE shielded]
    by auto
qed

section \<open>Properties of the round controller\<close>

subsection \<open>What the handlers leave alone\<close>

lemma gameOver_fields:
  "bear (gameOver s) = bear s" "noiseMeter (gameOver s) = noiseMeter s"
  "inputState (gameOver s) = inputState s" "powerUpManager (gameOver s) = powerUpManager s"
  "scene_currentLevel (gameOver s) = scene_currentLevel s" "gameState (gameOver s) = GAME_OVER"
  "television (gameOver s) = television s" "noiseSourceManager (gameOver s) = noiseSourceManager s"
  by (simp_all add: gameOver_def)

lemma on_entity_event_fields:
  "bear (on_entity_event e s) = bear s" "noiseMeter (on_entity_event e s) = noiseMeter s"
  "inputState (on_entity_event e s) = inputState s"
  "powerUpManager (on_entity_event e s) = powerUpManager s"
  "scene_currentLevel (on_entity_event e s) = scene_currentLevel s"
  "television (on_entity_event e s) = television s"
  "noiseSourceManager (on_entity_event e s) = noiseSourceManager s"
  by (cases e; simp add: onBearStateChange_def onBearWakeUp_def onMeterUpdate_def gameOver_fields)+

lemma on_entity_event_gameState:
  "gameState (on_entity_event e s) = gameState s \<or> gameState (on_entity_event e s) = GAME_OVER"
  by (cases e) (simp_all add: onBearStateChange_def onBearWakeUp_def onMeterUpdate_def gameOver_fields)

lemma deliver_fields:
  "bear (deliver evs s) = bear s" "noiseMeter (deliver evs s) = noiseMeter s"
  "inputState (deliver evs s) = inputState s"
  "powerUpManager (deliver evs s) = powerUpManager s"
  "scene_currentLevel (deliver evs s) = scene_currentLevel s"
  "television (deliver evs s) = television s"
  "noiseSourceManager (deliver evs s) = noiseSourceManager s"
  by (induction evs arbitrary: s; simp add: on_entity_event_fields)+

lemma deliver_gameState:
  "gameState (deliver evs s) = gameState s \<or> gameState (deliver evs s) = GAME_OVER"
proof (induction evs arbitrary: s)
  case Nil
  then show ?case by simp
next
  case (Cons e es)
  show ?case
    using Cons.IH [of "on_entity_event e s"] on_entity_event_gameState [of e s]
    by auto
qed


subsection \<open>The scene's calls on the bear and the meter\<close>

lemma updateState_noise:
  "currentNoise (fst (updateStateBasedOnNoise b)) = currentNoise b"
  "wakeThreshold (fst (updateStateBasedOnNoise b)) = wakeThreshold b"
  by (simp_all add: updateStateBasedOnNoise_def Let_def)

lemma bear_calls_noise:
  "currentNoise (fst (bear_addNoise a b)) = min (currentNoise b + a) (wakeThreshold b)"
  "wakeThreshold (fst (bear_addNoise a b)) = wakeThreshold b"
  "currentNoise (fst (bear_reduceNoise a b)) = max (currentNoise b - a) 0"
  "wakeThreshold (fst (bear_reduceNoise a b)) = wakeThreshold b"
  "currentNoise (fst (Bear_update b)) = currentNoise b"
  "wakeThreshold (fst (Bear_update b)) = wakeThreshold b"
  by (simp_all add: bear_addNoise_def bear_reduceNoise_def Bear_update_def updateState_noise)

lemma meter_calls_level:
  "currentLevel (fst (meter_addNoise a m)) = min (currentLevel m + a) (maxLevel m)"
  "maxLevel (fst (meter_addNoise a m)) = maxLevel m"
  "currentLevel (fst (meter_reduceNoise a m)) = max (currentLevel m - a) 0"
  "maxLevel (fst (meter_reduceNoise a m)) = maxLevel m"
  by (simp_all add: meter_addNoise_def meter_reduceNoise_def Let_def)

lemma scene_bear_fields:
  "bear (scene_bear_addNoise a s) = fst (bear_addNoise a (bear s))"
  "noiseMeter (scene_bear_addNoise a s) = noiseMeter s"
  "bear (scene_bear_reduceNoise a s) = fst (bear_reduceNoise a (bear s))"
  "noiseMeter (scene_bear_reduceNoise a s) = noiseMeter s"
  "bear (scene_bear_update s) = fst (Bear_update (bear s))"
  "noiseMeter (scene_bear_update s) = noiseMeter s"
  by (simp_all add: scene_bear_addNoise_def scene_bear_reduceNoise_def scene_bear_update_def
      case_prod_beta deliver_fields)

lemma scene_bear_others:
  "inputState (scene_bear_addNoise a s) = inputState s"
  "powerUpManager (scene_bear_addNoise a s) = powerUpManager s"
  "scene_currentLevel (scene_bear_addNoise a s) = scene_currentLevel s"
  "television (scene_bear_addNoise a s) = television s"
  "noiseSourceManager (scene_bear_addNoise a s) = noiseSourceManager s"
  "inputState (scene_bear_reduceNoise a s) = inputState s"
  "powerUpManager (scene_bear_reduceNoise a s) = powerUpManager s"
  "scene_currentLevel (scene_bear_reduceNoise a s) = scene_currentLevel s"
  "television (scene_bear_reduceNoise a s) = television s"
  "noiseSourceManager (scene_bear_reduceNoise a s) = noiseSourceManager s"
  "inputState (scene_bear_update s) = inputState s"
  "powerUpManager (scene_bear_update s) = powerUpManager s"
  "scene_currentLevel (scene_bear_update s) = scene_currentLevel s"
  "television (scene_bear_update s) = television s"
  "noiseSourceManager (scene_bear_update s) = noiseSourceManager s"
  by (simp_all add: scene_bear_addNoise_def scene_bear_reduceNoise_def scene_bear_update_def
      case_prod_beta deliver_fields)

lemma scene_meter_fields:
  "bear (scene_meter_addNoise a s) = bear s"
  "noiseMeter (scene_meter_addNoise a s) = fst (meter_addNoise a (noiseMeter s))"
  "bear (scene_meter_reduceNoise a s) = bear s"
  "noiseMeter (scene_meter_reduceNoise a s) = fst (meter_reduceNoise a (noiseMeter s))"
  by (simp_all add: scene_meter_addNoise_def scene_meter_reduceNoise_def case_prod_beta deliver_fields)

lemma scene_meter_others:
  "inputState (scene_meter_addNoise a s) = inputState s"
  "powerUpManager (scene_meter_addNoise a s) = powerUpManager s"
  "scene_currentLevel (scene_meter_addNoise a s) = scene_currentLevel s"
  "television (scene_meter_addNoise a s) = television s"
  "noiseSourceManager (scene_meter_addNoise a s) = noiseSourceManager s"
  "inputState (scene_meter_reduceNoise a s) = inputState s"
  "powerUpManager (scene_meter_reduceNoise a s) = powerUpManager s"
  "scene_currentLevel (scene_meter_reduceNoise a s) = scene_currentLevel s"
  "television (scene_meter_reduceNoise a s) = television s"
  "noiseSourceManager (scene_meter_reduceNoise a s) = noiseSourceManager s"
  by (simp_all add: scene_meter_addNoise_def scene_meter_reduceNoise_def case_prod_beta deliver_fields)

subsection \<open>The bear and the meter stay in step\<close>

lemma in_sync_add:
  "in_sync s \<Longrightarrow> in_sync (scene_meter_addNoise a (scene_bear_addNoise a s))"
  by (simp add: in_sync_def scene_meter_fields scene_bear_fields bear_calls_noise meter_calls_level)

lemma in_sync_reduce:
  "in_sync s \<Longrightarrow> in_sync (scene_meter_reduceNoise a (scene_bear_reduceNoise a s))"
  by (simp add: in_sync_def scene_meter_fields scene_bear_fields bear_calls_noise meter_calls_level)

lemma in_sync_on_entity_event: "in_sync (on_entity_event e s) = in_sync s"
  by (simp add: in_sync_def on_entity_event_fields)

lemma in_sync_onTVNoiseStart: "in_sync s \<Longrightarrow> in_sync (onTVNoiseStart n s)"
  by (simp add: onTVNoiseStart_def Let_def in_sync_add)

lemma in_sync_onNoiseSourceStart: "in_sync s \<Longrightarrow> in_sync (onNoiseSourceStart n s)"
proof -
  assume a: "in_sync s"
  have "in_sync (s'\<lparr>gameStats := g\<rparr>) = in_sync s'" for s' g
    by (simp add: in_sync_def)
  then show ?thesis
    using a by (simp add: onNoiseSourceStart_def Let_def in_sync_add)
qed

lemma in_sync_on_bus_event: "in_sync s \<Longrightarrow> in_sync (on_bus_event e s)"
  by (cases e) (simp_all add: in_sync_onTVNoiseStart in_sync_onNoiseSourceStart
      in_sync_on_entity_event del: on_entity_event.simps)

lemma in_sync_dispatch: "in_sync s \<Longrightarrow> in_sync (dispatch evs s)"
  by (induction evs arbitrary: s) (simp_all add: in_sync_on_bus_event)

lemma in_sync_update_entities: "in_sync s \<Longrightarrow> in_sync (update_entities s)"
proof -
  assume a: "in_sync s"
  have b: "in_sync (scene_bear_update s)"
    using a by (simp add: in_sync_def scene_bear_fields bear_calls_noise)
  have c: "in_sync (scene_bear_update s\<lparr>television := tv\<rparr>)" for tv
    using b by (simp add: in_sync_def)
  show ?thesis
    by (simp add: update_entities_def Let_def case_prod_beta in_sync_dispatch c)
qed

lemma in_sync_update_systems: "in_sync s \<Longrightarrow> in_sync (update_systems f s)"
proof -
  assume a: "in_sync s"
  have b: "in_sync (s\<lparr>noiseSourceManager := srcs\<rparr>)" for srcs
    using a by (simp add: in_sync_def)
  have c: "in_sync (s'\<lparr>powerUpManager := p\<rparr>) = in_sync s'" for s' p
    by (simp add: in_sync_def)
  show ?thesis
    by (simp add: update_systems_def Let_def case_prod_beta c in_sync_dispatch b)
qed

lemma in_sync_update: "in_sync s \<Longrightarrow> in_sync (update f s)"
proof -
  assume a: "in_sync s"
  have stat: "in_sync (update_statistics s') = in_sync s'" for s'
    by (simp add: in_sync_def update_statistics_def)
  have nc: "in_sync s' \<Longrightarrow> in_sync (update_noiseCanceling f s')" for s'
    by (simp add: update_noiseCanceling_def Let_def in_sync_reduce)
  have tv: "in_sync s' \<Longrightarrow> in_sync (update_tvNoise f s')" for s'
    by (simp add: update_tvNoise_def Let_def in_sync_add)
  have src: "in_sync s' \<Longrightarrow> in_sync (update_sourceNoise f s')" for s'
    by (simp add: update_sourceNoise_def Let_def in_sync_add)
  show ?thesis
    using a by (simp add: update_def src tv nc stat in_sync_update_systems in_sync_update_entities)
qed

lemma in_sync_updateNoiseCancelState: "in_sync (updateNoiseCancelState s) = in_sync s"
  by (simp add: in_sync_def updateNoiseCancelState_def Let_def activateNoiseCanceling_def
      deactivateNoiseCanceling_def)

lemma in_sync_call: "in_sync s \<Longrightarrow> in_sync (run_scene_call c s)"
proof (cases c)
  case (Frame f)
  assume "in_sync s"
  with Frame show ?thesis by (simp add: in_sync_update)
next
  case TimerTick
  assume "in_sync s"
  with TimerTick show ?thesis
    by (simp add: in_sync_def updateGameTimer_def updateScore_def checkVictoryCondition_def
        victory_def gameOver_def Let_def)
next
  case SpaceDown
  assume "in_sync s"
  then have "in_sync (s\<lparr>inputState := i\<rparr>)" for i by (simp add: in_sync_def)
  with SpaceDown \<open>in_sync s\<close> show ?thesis
    by (simp add: onSpaceDown_def in_sync_updateNoiseCancelState)
next
  case SpaceUp
  assume "in_sync s"
  then have "in_sync (s\<lparr>inputState := i\<rparr>)" for i by (simp add: in_sync_def)
  with SpaceUp show ?thesis
    by (simp add: onSpaceUp_def in_sync_updateNoiseCancelState)
next
  case (PointerDown now)
  assume "in_sync s"
  then have "in_sync (s\<lparr>inputState := i, noiseCancelStartTime := t\<rparr>)" for i t
    by (simp add: in_sync_def)
  with PointerDown \<open>in_sync s\<close> show ?thesis
    by (simp add: startNoiseCancel_def in_sync_updateNoiseCancelState)
next
  case (PointerUp now)
  assume a: "in_sync s"
  have "in_sync (s'\<lparr>inputState := i, noiseCancelStartTime := t\<rparr>) = in_sync s'" for s' i t
    by (simp add: in_sync_def)
  moreover have "in_sync (s\<lparr>gameStats := g\<rparr>)" for g
    using a by (simp add: in_sync_def)
  ultimately show ?thesis
    using PointerUp a by (simp add: stopNoiseCancel_def Let_def in_sync_updateNoiseCancelState)
next
  case TogglePause
  assume "in_sync s"
  with TogglePause show ?thesis by (simp add: togglePause_def in_sync_def)
next
  case (SpawnPowerUp r)
  assume "in_sync s"
  with SpawnPowerUp show ?thesis by (simp add: in_sync_def)
next
  case (Collect t)
  assume "in_sync s"
  with Collect show ?thesis by (simp add: onPowerUpCollected_def in_sync_def Let_def)
next
  case TvTimerTurnOn
  assume "in_sync s"
  with TvTimerTurnOn show ?thesis by (simp add: in_sync_def)
next
  case TvTimerTurnOff
  assume "in_sync s"
  with TvTimerTurnOff show ?thesis by (simp add: in_sync_def)
next
  case (TvTweenComplete r)
  assume "in_sync s"
  with TvTweenComplete show ?thesis by (simp add: in_sync_def)
next
  case (SourceCreated now rnd cfg)
  assume "in_sync s"
  with SourceCreated show ?thesis by (simp add: in_sync_def)
qed

lemma in_sync_calls: "in_sync s \<Longrightarrow> in_sync (run_scene_calls cs s)"
  by (induction cs arbitrary: s) (simp_all add: in_sync_call)

lemma in_sync_new: "in_sync (GameScene_new level now rnd)"
  by (simp add: in_sync_def GameScene_new_def Bear_new_def NoiseMeter_new_def)



subsection \<open>A full meter ends the round\<close>

lemma full_is_over_mono:
  assumes "full_is_over s" and "noiseMeter s' = noiseMeter s"
    and "gameState s' = gameState s \<or> gameState s' = GAME_OVER"
  shows "full_is_over s'"
  using assms by (auto simp: full_is_over_def)

lemma full_is_over_deliver: "full_is_over s \<Longrightarrow> full_is_over (deliver evs s)"
proof -
  assume a: "full_is_over s"
  show ?thesis
    using a deliver_fields(2) [of evs s] deliver_gameState [of evs s] by (rule full_is_over_mono)
qed

lemma full_is_over_bear:
  assumes "full_is_over s"
  shows "full_is_over (scene_bear_addNoise a s)" "full_is_over (scene_bear_reduceNoise a s)"
    "full_is_over (scene_bear_update s)"
proof -
  have b: "full_is_over (s\<lparr>bear := b\<rparr>)" for b
    using assms by (simp add: full_is_over_def)
  show "full_is_over (scene_bear_addNoise a s)"
    by (simp add: scene_bear_addNoise_def case_prod_beta full_is_over_deliver b)
  show "full_is_over (scene_bear_reduceNoise a s)"
    by (simp add: scene_bear_reduceNoise_def case_prod_beta full_is_over_deliver b)
  show "full_is_over (scene_bear_update s)"
    by (simp add: scene_bear_update_def case_prod_beta full_is_over_deliver b)
qed

lemma full_is_over_meter_add:
  assumes "full_is_over s"
  shows "full_is_over (scene_meter_addNoise a s)"
proof -
  let ?m = "fst (meter_addNoise a (noiseMeter s))"
  have mx: "maxLevel ?m = WAKE_METER_MAX"
    using assms by (simp add: meter_calls_level full_is_over_def)
  show ?thesis
  proof (cases "currentLevel ?m = currentLevel (noiseMeter s)")
    case True
    then have "scene_meter_addNoise a s = s\<lparr>noiseMeter := ?m\<rparr>"
      by (simp add: scene_meter_addNoise_def meter_addNoise_def Let_def)
    then show ?thesis
      using assms True mx by (simp add: full_is_over_def)
  next
    case False
    then have "scene_meter_addNoise a s =
        deliver [EvMeterUpdate (currentLevel ?m) (getPercentage ?m) True] (s\<lparr>noiseMeter := ?m\<rparr>)"
      by (simp add: scene_meter_addNoise_def meter_addNoise_def Let_def)
    then show ?thesis
      using mx
      by (simp add: full_is_over_def onMeterUpdate_def gameOver_fields getPercentage_def
          WAKE_METER_MAX_def)
  qed
qed

lemma full_is_over_meter_reduce:
  assumes "full_is_over s"
  shows "full_is_over (scene_meter_reduceNoise a s)"
proof -
  let ?m = "fst (meter_reduceNoise a (noiseMeter s))"
  have mx: "maxLevel ?m = WAKE_METER_MAX"
    using assms by (simp add: meter_calls_level full_is_over_def)
  show ?thesis
  proof (cases "currentLevel ?m = currentLevel (noiseMeter s)")
    case True
    then have "scene_meter_reduceNoise a s = s\<lparr>noiseMeter := ?m\<rparr>"
      by (simp add: scene_meter_reduceNoise_def meter_reduceNoise_def Let_def)
    then show ?thesis
      using assms True mx by (simp add: full_is_over_def)
  next
    case False
    then have "scene_meter_reduceNoise a s =
        deliver [EvMeterUpdate (currentLevel ?m) (getPercentage ?m) False] (s\<lparr>noiseMeter := ?m\<rparr>)"
      by (simp add: scene_meter_reduceNoise_def meter_reduceNoise_def Let_def)
    then show ?thesis
      using mx
      by (simp add: full_is_over_def onMeterUpdate_def gameOver_fields getPercentage_def
          WAKE_METER_MAX_def)
  qed
qed

lemma full_is_over_on_bus_event: "full_is_over s \<Longrightarrow> full_is_over (on_bus_event e s)"
proof -
  assume a: "full_is_over s"
  have ent: "full_is_over (on_entity_event e s)"
    using a on_entity_event_fields(2) [of e s] on_entity_event_gameState [of e s]
    by (rule full_is_over_mono)
  have stats: "full_is_over (s'\<lparr>gameStats := g\<rparr>) = full_is_over s'" for s' g
    by (simp add: full_is_over_def)
  have tv: "full_is_over (onTVNoiseStart n s)" for n
    using a by (simp add: onTVNoiseStart_def Let_def full_is_over_meter_add full_is_over_bear)
  have src: "full_is_over (onNoiseSourceStart n s)" for n
    using a by (simp add: onNoiseSourceStart_def Let_def stats full_is_over_meter_add full_is_over_bear)
  show ?thesis
    using ent tv src by (cases e) (simp_all del: on_entity_event.simps)
qed

lemma full_is_over_dispatch: "full_is_over s \<Longrightarrow> full_is_over (dispatch evs s)"
  by (induction evs arbitrary: s) (simp_all add: full_is_over_on_bus_event)

lemma full_is_over_update: "full_is_over s \<Longrightarrow> full_is_over (update f s)"
proof -
  assume a: "full_is_over s"
  have ent: "full_is_over (update_entities s)"
  proof -
    have "full_is_over (scene_bear_update s\<lparr>television := tv\<rparr>)" for tv
      using full_is_over_bear(3) [OF a] by (simp add: full_is_over_def)
    then show ?thesis
      by (simp add: update_entities_def Let_def case_prod_beta full_is_over_dispatch)
  qed
  have sys: "full_is_over s' \<Longrightarrow> full_is_over (update_systems f s')" for s'
  proof -
    assume b: "full_is_over s'"
    have c: "full_is_over (s'\<lparr>noiseSourceManager := srcs\<rparr>)" for srcs
      using b by (simp add: full_is_over_def)
    have d: "full_is_over (s''\<lparr>powerUpManager := p\<rparr>) = full_is_over s''" for s'' p
      by (simp add: full_is_over_def)
    show ?thesis
      by (simp add: update_systems_def Let_def case_prod_beta d full_is_over_dispatch c)
  qed
  have stat: "full_is_over (update_statistics s') = full_is_over s'" for s'
    by (simp add: full_is_over_def update_statistics_def)
  have nc: "full_is_over s' \<Longrightarrow> full_is_over (update_noiseCanceling f s')" for s'
    by (simp add: update_noiseCanceling_def Let_def full_is_over_meter_reduce full_is_over_bear)
  have tv: "full_is_over s' \<Longrightarrow> full_is_over (update_tvNoise f s')" for s'
    by (simp add: update_tvNoise_def Let_def full_is_over_meter_add full_is_over_bear)
  have src: "full_is_over s' \<Longrightarrow> full_is_over (update_sourceNoise f s')" for s'
    by (simp add: update_sourceNoise_def Let_def full_is_over_meter_add full_is_over_bear)
  show ?thesis
    using a by (simp add: update_def src tv nc stat sys ent)
qed

lemma full_is_over_updateNoiseCancelState:
  "full_is_over (updateNoiseCancelState s) = full_is_over s"
  by (simp add: full_is_over_def updateNoiseCancelState_def Let_def activateNoiseCanceling_def
      deactivateNoiseCanceling_def)

lemma full_is_over_updateGameTimer: "full_is_over s \<Longrightarrow> full_is_over (updateGameTimer s)"
  by (auto simp: full_is_over_def updateGameTimer_def updateScore_def checkVictoryCondition_def
      victory_def gameOver_def getCurrentLevel_def WAKE_METER_MAX_def Let_def)

lemma full_is_over_call: "full_is_over s \<Longrightarrow> full_is_over (run_scene_call c s)"
proof (cases c)
  case (Frame f)
  assume "full_is_over s"
  with Frame show ?thesis by (simp add: full_is_over_update)
next
  case TimerTick
  assume "full_is_over s"
  with TimerTick show ?thesis by (simp add: full_is_over_updateGameTimer)
next
  case SpaceDown
  assume a: "full_is_over s"
  then have "full_is_over (s\<lparr>inputState := i\<rparr>)" for i by (simp add: full_is_over_def)
  with SpaceDown a show ?thesis
    by (simp add: onSpaceDown_def full_is_over_updateNoiseCancelState)
next
  case SpaceUp
  assume "full_is_over s"
  then have "full_is_over (s\<lparr>inputState := i\<rparr>)" for i by (simp add: full_is_over_def)
  with SpaceUp show ?thesis
    by (simp add: onSpaceUp_def full_is_over_updateNoiseCancelState)
next
  case (PointerDown now)
  assume a: "full_is_over s"
  then have "full_is_over (s\<lparr>inputState := i, noiseCancelStartTime := t\<rparr>)" for i t
    by (simp add: full_is_over_def)
  with PointerDown a show ?thesis
    by (simp add: startNoiseCancel_def full_is_over_updateNoiseCancelState)
next
  case (PointerUp now)
  assume a: "full_is_over s"
  have "full_is_over (s'\<lparr>inputState := i, noiseCancelStartTime := t\<rparr>) = full_is_over s'" for s' i t
    by (simp add: full_is_over_def)
  moreover have "full_is_over (s\<lparr>gameStats := g\<rparr>)" for g
    using a by (simp add: full_is_over_def)
  ultimately show ?thesis
    using PointerUp a by (simp add: stopNoiseCancel_def Let_def full_is_over_updateNoiseCancelState)
next
  case TogglePause
  assume "full_is_over s"
  with TogglePause show ?thesis by (auto simp: togglePause_def full_is_over_def)
next
  case (SpawnPowerUp r)
  assume "full_is_over s"
  with SpawnPowerUp show ?thesis by (simp add: full_is_over_def)
next
  case (Collect t)
  assume "full_is_over s"
  with Collect show ?thesis by (simp add: onPowerUpCollected_def full_is_over_def Let_def)
next
  case TvTimerTurnOn
  assume "full_is_over s"
  with TvTimerTurnOn show ?thesis by (simp add: full_is_over_def)
next
  case TvTimerTurnOff
  assume "full_is_over s"
  with TvTimerTurnOff show ?thesis by (simp add: full_is_over_def)
next
  case (TvTweenComplete r)
  assume "full_is_over s"
  with TvTweenComplete show ?thesis by (simp add: full_is_over_def)
next
  case (SourceCreated now rnd cfg)
  assume "full_is_over s"
  with SourceCreated show ?thesis by (simp add: full_is_over_def)
qed

lemma full_is_over_calls: "full_is_over s \<Longrightarrow> full_is_over (run_scene_calls cs s)"
  by (induction cs arbitrary: s) (simp_all add: full_is_over_call)

lemma full_is_over_new: "full_is_over (GameScene_new level now rnd)"
  by (simp add: full_is_over_def GameScene_new_def NoiseMeter_new_def)

subsection \<open>Concrete rounds\<close>

lemmas scene_eval =
  GameScene_new_def level5_def Bear_new_def NoiseMeter_new_def Television_new_def
  tv_scheduleNextActivation_def configure_def default_tvConfig_def Between_def
  PowerUpManager_new_def setAvailablePowerUps_def createNoiseSource_def
  turnOn_def turnOff_def tween_complete_def turnOn_onComplete_def turnOff_onComplete_def
  scheduleDeactivation_def onPowerUpCollected_def activatePowerUp_def isActivePowerUp_def
  getPowerUpConfig_def powerUpConfigs_def ActivePowerUp_new_def no_effect_def
  WAKE_METER_MAX_def NOISE_INCREASE_RATE_def NOISE_DECREASE_RATE_def TIMER_UPDATE_INTERVAL_def
  Let_def

lemma shield_scene_eq:
  "shield_scene =
     (GameScene_new level5 0 (\<lambda>k. 0))
       \<lparr>television :=
          \<lparr>tvState = \<lparr>tv_active = True, tv_currentState = ON, isOn = True, noiseLevel = 15,
                      turnOnDelay = 8000, activeDuration = 10000\<rparr>,
           tvConfig = level_tvConfig level5, tweens = []\<rparr>,
        powerUpManager :=
          \<lparr>availablePowerUps = [ESPRESSO_SHOT, SOUND_SHIELD, MEDITATION_STATE],
           activePowerUps =
             [(SOUND_SHIELD,
               \<lparr>ap_type = SOUND_SHIELD,
                ap_config =
                  \<lparr>pu_type = SOUND_SHIELD, pu_name = ''Sound Shield'',
                   description = ''Complete immunity to noise for 8 seconds'', pu_duration = 8000,
                   cooldown = 60000, effect = no_effect\<lparr>temporaryImmunity := Some True\<rparr>\<rparr>,
                remainingDuration = 8000, ap_isActive = True\<rparr>)],
           powerUpCooldowns = []\<rparr>,
        gameStats :=
          \<lparr>timeRemaining = 75000, maxNoiseLevel = 0, noiseCancelUsage = 0, powerUpsUsed = 1,
           perfectSleep = True, stealthMode = True\<rparr>\<rparr>"
  unfolding shield_scene_def
  by (simp add: scene_eval)

lemmas frame_eval =
  update_def update_entities_def update_systems_def update_statistics_def
  update_noiseCanceling_def update_tvNoise_def update_sourceNoise_def
  scene_bear_update_def scene_bear_addNoise_def scene_meter_addNoise_def
  scene_bear_reduceNoise_def scene_meter_reduceNoise_def
  Bear_update_def bear_addNoise_def bear_reduceNoise_def updateStateBasedOnNoise_def
  getNoisePercentage_def meter_addNoise_def meter_reduceNoise_def getPercentage_def
  getCurrentLevel_def
  tv_update_def tv_isOn_def onTVNoiseStart_def onNoiseSourceStart_def
  onBearStateChange_def onBearWakeUp_def onMeterUpdate_def gameOver_def
  pum_update_def ap_update_def expire_def hasTemporaryImmunity_def
  getNoiseReductionMultiplier_def getNoiseCancellationMultiplier_def

lemma tv_on_scene_eq:
  "tv_on_scene =
     (GameScene_new level5 0 (\<lambda>k. 0))
       \<lparr>television :=
          \<lparr>tvState = \<lparr>tv_active = True, tv_currentState = ON, isOn = True, noiseLevel = 15,
                      turnOnDelay = 8000, activeDuration = 10000\<rparr>,
           tvConfig = level_tvConfig level5, tweens = []\<rparr>\<rparr>"
  unfolding tv_on_scene_def round_state_def
  by (simp add: scene_eval)

lemma tv_noise_counted_twice:
  "currentLevel (noiseMeter (update frame16 tv_on_scene)) = 3 / 2 + (15 * 16 / 1000) * 1 * 1.3"
  unfolding tv_on_scene_eq
  by (simp add: frame16_def scene_eval frame_eval)

lemma long_frame_fills_meter:
  "currentLevel (noiseMeter (update long_frame tv_on_scene)) = 100
   \<and> gameTimer (update long_frame tv_on_scene) = 75000"
  unfolding tv_on_scene_eq
  by (simp add: long_frame_def scene_eval frame_eval)

subsection \<open>The claims about the round\<close>

lemma round_state_in_sync: "in_sync (round_state level now rnd cs)"
  unfolding round_state_def by (intro in_sync_calls in_sync_new)

lemma round_state_full_is_over: "full_is_over (round_state level now rnd cs)"
  unfolding round_state_def by (intro full_is_over_calls full_is_over_new)

text \<open>
  Claim C10. After any sequence of frames, timer ticks, input signals, collected power-ups and
  television transitions of a round, the bear's noise accumulator equals the meter's level;
  both clamp against the same maximum 100, so the percentage that drives the bear's tier
  equals the percentage the meter displays; and both start the round at 0.
\<close>

theorem C10_bear_and_meter_agree:
  "currentNoise (bear (round_state level now rnd cs)) =
     currentLevel (noiseMeter (round_state level now rnd cs))
   \<and> wakeThreshold (bear (round_state level now rnd cs)) = 100
   \<and> maxLevel (noiseMeter (round_state level now rnd cs)) = 100
   \<and> getNoisePercentage (bear (round_state level now rnd cs)) =
       getPercentage (noiseMeter (round_state level now rnd cs))
   \<and> currentNoise (bear (round_state level now rnd [])) = 0
   \<and> currentLevel (noiseMeter (round_state level now rnd [])) = 0"
proof -
  have a: "in_sync (round_state level now rnd cs)"
    by (rule round_state_in_sync)
  have b: "full_is_over (round_state level now rnd cs)"
    by (rule round_state_full_is_over)
  have c: "currentNoise (bear (round_state level now rnd [])) = 0
         \<and> currentLevel (noiseMeter (round_state level now rnd [])) = 0"
    by (simp add: round_state_def GameScene_new_def Bear_new_def NoiseMeter_new_def)
  show ?thesis
    using a b c
    by (simp add: in_sync_def full_is_over_def getNoisePercentage_def getPercentage_def
        WAKE_METER_MAX_def)
qed

theorem C10_bear_and_meter_agree_witness:
  "currentNoise (bear (round_state level5 0 (\<lambda>k. 0) [TvTimerTurnOn, TvTweenComplete 0, Frame frame16]))
     = 453 / 250
   \<and> currentLevel (noiseMeter (round_state level5 0 (\<lambda>k. 0) [TvTimerTurnOn, TvTweenComplete 0, Frame frame16]))
     = 453 / 250"
proof -
  have r: "round_state level5 0 (\<lambda>k. 0) [TvTimerTurnOn, TvTweenComplete 0, Frame frame16]
      = update frame16 tv_on_scene"
    by (simp add: round_state_def tv_on_scene_def)
  show ?thesis
    using C10_bear_and_meter_agree [of level5 0 "\<lambda>k. 0" "[TvTimerTurnOn, TvTweenComplete 0, Frame frame16]"]
      tv_noise_counted_twice
    unfolding r by simp
qed

text \<open>
  Claim C3. In every state a round reaches, a meter at its maximum 100 means that the round
  is \<^verbatim>\<open>GAME_OVER\<close>, whatever is left on the countdown; in particular a frame of a playing round
  that brings the meter to 100 ends in \<^verbatim>\<open>GAME_OVER\<close>. A timer tick of a playing round that brings
  the countdown to 0 or below while the meter is below 100 ends in \<^verbatim>\<open>VICTORY\<close>. And a round that
  is in \<^verbatim>\<open>VICTORY\<close> has its meter below 100.
\<close>

theorem C3_terminal_outcomes:
  "(100 \<le> currentLevel (noiseMeter (round_state level now rnd cs)) \<longrightarrow>
      gameState (round_state level now rnd cs) = GAME_OVER)
 \<and> (gameState (round_state level now rnd cs) = PLAYING
      \<and> 100 \<le> currentLevel (noiseMeter (update f (round_state level now rnd cs))) \<longrightarrow>
      gameState (update f (round_state level now rnd cs)) = GAME_OVER)
 \<and> (gameState s = PLAYING \<and> currentLevel (noiseMeter s) < 100
      \<and> gameTimer s - TIMER_UPDATE_INTERVAL \<le> 0 \<longrightarrow>
      gameState (updateGameTimer s) = VICTORY)
 \<and> (gameState (round_state level now rnd cs) = VICTORY \<longrightarrow>
      currentLevel (noiseMeter (round_state level now rnd cs)) < 100)"
proof -
  have a: "full_is_over (round_state level now rnd cs)"
    by (rule round_state_full_is_over)
  have b: "full_is_over (update f (round_state level now rnd cs))"
    using a by (rule full_is_over_update)
  have c: "gameState s = PLAYING \<and> currentLevel (noiseMeter s) < 100
      \<and> gameTimer s - TIMER_UPDATE_INTERVAL \<le> 0 \<longrightarrow>
      gameState (updateGameTimer s) = VICTORY"
    by (simp add: updateGameTimer_def updateScore_def checkVictoryCondition_def victory_def
        getCurrentLevel_def WAKE_METER_MAX_def Let_def)
  show ?thesis
    using a b c by (auto simp: full_is_over_def)
qed

theorem C3_terminal_outcomes_witness:
  "gameState tv_on_scene = PLAYING
   \<and> currentLevel (noiseMeter (update long_frame tv_on_scene)) = 100
   \<and> gameTimer (update long_frame tv_on_scene) = 75000
   \<and> gameState (update long_frame tv_on_scene) = GAME_OVER
   \<and> gameState last_tick_scene = PLAYING
   \<and> currentLevel (noiseMeter last_tick_scene) = 99
   \<and> gameTimer last_tick_scene = 100
   \<and> gameState (updateGameTimer last_tick_scene) = VICTORY"
proof -
  have p: "gameState tv_on_scene = PLAYING"
    by (simp add: tv_on_scene_eq GameScene_new_def)
  have q: "gameState last_tick_scene = PLAYING \<and> currentLevel (noiseMeter last_tick_scene) = 99
      \<and> gameTimer last_tick_scene = 100"
    by (simp add: last_tick_scene_def GameScene_new_def)
  show ?thesis
    using p q long_frame_fills_meter
      C3_terminal_outcomes [of level5 0 "\<lambda>k. 0" "[TvTimerTurnOn, TvTweenComplete 0]" long_frame
        last_tick_scene]
    unfolding tv_on_scene_def [symmetric]
    by (simp add: TIMER_UPDATE_INTERVAL_def)
qed

subsection \<open>The per-frame change of the meter\<close>

text \<open>
  With suppression active the frame reduces the meter by
  \<^verbatim>\<open>NOISE_DECREASE_RATE * delta / 1000\<close> times the suppression boost of the power-ups that are
  still active after this frame's tick and the level's decrease multiplier, and adds nothing.
\<close>

lemma on_bus_event_suppressed:
  assumes "isNoiseCancelActive (inputState s)"
  shows "noiseMeter (on_bus_event e s) = noiseMeter s"
    and "inputState (on_bus_event e s) = inputState s"
    and "powerUpManager (on_bus_event e s) = powerUpManager s"
    and "scene_currentLevel (on_bus_event e s) = scene_currentLevel s"
  using assms
  by (cases e; simp add: onTVNoiseStart_def onNoiseSourceStart_def on_entity_event_fields
      del: on_entity_event.simps)+

lemma dispatch_suppressed:
  assumes "isNoiseCancelActive (inputState s)"
  shows "noiseMeter (dispatch evs s) = noiseMeter s \<and> inputState (dispatch evs s) = inputState s
       \<and> powerUpManager (dispatch evs s) = powerUpManager s
       \<and> scene_currentLevel (dispatch evs s) = scene_currentLevel s"
  using assms
proof (induction evs arbitrary: s)
  case Nil
  then show ?case by simp
next
  case (Cons e es)
  have "isNoiseCancelActive (inputState (on_bus_event e s))"
    using Cons.prems by (simp add: on_bus_event_suppressed)
  from Cons.IH [OF this] show ?case
    using Cons.prems by (simp add: on_bus_event_suppressed)
qed

lemma update_when_suppressed:
  assumes "gameState s = PLAYING" and "isNoiseCancelActive (inputState s)"
  shows "noiseMeter (update f s) =
     fst (meter_reduceNoise
            ((NOISE_DECREASE_RATE * f_delta f) / 1000
               * getNoiseCancellationMultiplier (fst (pum_update (f_delta f) (powerUpManager s)))
               * noiseDecreaseMultiplier (modifiers (scene_currentLevel s)))
            (noiseMeter s))"
proof -
  let ?s0 = "scene_bear_update s"
  let ?s1 = "update_entities s"
  let ?s2 = "update_systems f ?s1"
  let ?s3 = "update_statistics ?s2"
  let ?s4 = "update_noiseCanceling f ?s3"
  let ?s5 = "update_tvNoise f ?s4"
  have c0: "isNoiseCancelActive (inputState (?s0\<lparr>television := tv\<rparr>))" for tv
    using assms(2) by (simp add: scene_bear_others)
  have e1: "noiseMeter ?s1 = noiseMeter s \<and> inputState ?s1 = inputState s
      \<and> powerUpManager ?s1 = powerUpManager s \<and> scene_currentLevel ?s1 = scene_currentLevel s"
    using dispatch_suppressed [OF c0]
    by (simp add: update_entities_def Let_def case_prod_beta scene_bear_fields scene_bear_others)
  have c1: "isNoiseCancelActive (inputState (?s1\<lparr>noiseSourceManager := srcs\<rparr>))" for srcs
    using assms(2) e1 by simp
  have e2: "noiseMeter ?s2 = noiseMeter s \<and> inputState ?s2 = inputState s
      \<and> powerUpManager ?s2 = fst (pum_update (f_delta f) (powerUpManager s))
      \<and> scene_currentLevel ?s2 = scene_currentLevel s"
    using dispatch_suppressed [OF c1] e1
    by (simp add: update_systems_def Let_def case_prod_beta)
  have e3: "noiseMeter ?s3 = noiseMeter s \<and> inputState ?s3 = inputState s
      \<and> powerUpManager ?s3 = fst (pum_update (f_delta f) (powerUpManager s))
      \<and> scene_currentLevel ?s3 = scene_currentLevel s"
    using e2 by (simp add: update_statistics_def)
  have e4: "noiseMeter ?s4 =
       fst (meter_reduceNoise
            ((NOISE_DECREASE_RATE * f_delta f) / 1000
               * getNoiseCancellationMultiplier (fst (pum_update (f_delta f) (powerUpManager s)))
               * noiseDecreaseMultiplier (modifiers (scene_currentLevel s)))
            (noiseMeter s))
      \<and> inputState ?s4 = inputState s"
    using e3 assms(2)
    by (simp add: update_noiseCanceling_def Let_def scene_meter_fields scene_bear_fields
        scene_meter_others scene_bear_others)
  have e5: "?s5 = ?s4"
    using e4 assms(2) by (simp add: update_tvNoise_def)
  have e6: "update_sourceNoise f ?s5 = ?s5"
    using e4 e5 assms(2) by (simp add: update_sourceNoise_def Let_def)
  show ?thesis
    using assms(1) e4 e5 e6 by (simp add: update_def)
qed

text \<open>
  Claim C2 fails on the code where the television is in its \<^verbatim>\<open>ON\<close> phase. Each frame,
  \<^verbatim>\<open>Television.update\<close> emits the noise event, and its subscriber \<^verbatim>\<open>onTVNoiseStart\<close> adds
  \<^verbatim>\<open>noiseLevel * TIMER_UPDATE_INTERVAL / 1000 = 1.5\<close> to the bear and the meter without asking for
  temporary immunity and without the multipliers. With the sound shield active, suppression
  off and the meter at 0, a frame of 16 ms leaves the meter at 1.5 instead of 0.
\<close>

theorem C2_immunity_does_not_stop_tv_noise:
  "gameState shield_scene = PLAYING
   \<and> tv_currentState (tvState (television shield_scene)) = ON
   \<and> \<not> isNoiseCancelActive (inputState shield_scene)
   \<and> hasTemporaryImmunity (powerUpManager shield_scene)
   \<and> currentLevel (noiseMeter shield_scene) = 0
   \<and> currentLevel (noiseMeter (update frame16 shield_scene)) = 3 / 2"
  unfolding shield_scene_eq
  by (simp add: frame16_def scene_eval frame_eval)

end
